theory Spec2Isabelle
  imports Complex_Main
begin

section \<open>Data model\<close>

text \<open>
  The movement-and-collision core of \<^verbatim>\<open>source/coursework.cpp\<close>, in two readings.

  In the exact reading of this and the next three sections every \<^verbatim>\<open>float\<close> is the real
  number it denotes and arithmetic is exact. All constants of the source (room bounds,
  camera radius, floor height, speed) are dyadic rationals, so they are the same numbers
  in both readings, and comparisons of finite floats are exact. The exact reading serves
  the claims whose values are computed without rounding.

  The binary32 reading further below has the values and the rounding of IEEE 754 single
  precision, with infinities and NaN. It serves the claims whose truth depends on what
  the arithmetic of the program computes.

  \<^verbatim>\<open>glm::vec3\<close> is a record of three coordinates; the fields \<^verbatim>\<open>x\<close>, \<^verbatim>\<open>y\<close>, \<^verbatim>\<open>z\<close>
  carry a prefix so that they stay usable as variable names.
\<close>

record vec3 =
  vec_x :: real
  vec_y :: real
  vec_z :: real

definition Vec3 :: "real \<Rightarrow> real \<Rightarrow> real \<Rightarrow> vec3" where
  "Vec3 a b c = \<lparr>vec_x = a, vec_y = b, vec_z = c\<rparr>"

text \<open>\<^verbatim>\<open>v + w\<close>, \<^verbatim>\<open>v - w\<close>, \<^verbatim>\<open>s * v\<close> and \<^verbatim>\<open>v * s\<close> of glm, componentwise.\<close>

definition vec_add :: "vec3 \<Rightarrow> vec3 \<Rightarrow> vec3" where
  "vec_add v w = Vec3 (vec_x v + vec_x w) (vec_y v + vec_y w) (vec_z v + vec_z w)"

definition vec_sub :: "vec3 \<Rightarrow> vec3 \<Rightarrow> vec3" where
  "vec_sub v w = Vec3 (vec_x v - vec_x w) (vec_y v - vec_y w) (vec_z v - vec_z w)"

definition scalar_mult :: "real \<Rightarrow> vec3 \<Rightarrow> vec3" where
  "scalar_mult s v = Vec3 (s * vec_x v) (s * vec_y v) (s * vec_z v)"

definition mult_scalar :: "vec3 \<Rightarrow> real \<Rightarrow> vec3" where
  "mult_scalar v s = Vec3 (vec_x v * s) (vec_y v * s) (vec_z v * s)"

text \<open>\<^verbatim>\<open>glm::length(v)\<close> is \<^verbatim>\<open>sqrt(dot(v, v))\<close>.\<close>

definition vec_length :: "vec3 \<Rightarrow> real" where
  "vec_length v = sqrt (vec_x v * vec_x v + vec_y v * vec_y v + vec_z v * vec_z v)"

text \<open>\<^verbatim>\<open>struct Object\<close>.\<close>

record Object =
  position :: vec3
  rotation :: vec3
  scale :: vec3
  angle :: real
  name :: string

text \<open>\<^verbatim>\<open>struct boxBound\<close> and the table \<^verbatim>\<open>roomBounds\<close>: floor, ceiling, back wall,
  front wall, left wall, right wall.\<close>

record boxBound =
  xMin :: real
  xMax :: real
  yMin :: real
  yMax :: real
  zMin :: real
  zMax :: real

definition mkBound :: "real \<Rightarrow> real \<Rightarrow> real \<Rightarrow> real \<Rightarrow> real \<Rightarrow> real \<Rightarrow> boxBound" where
  "mkBound x0 x1 y0 y1 z0 z1 =
     \<lparr>xMin = x0, xMax = x1, yMin = y0, yMax = y1, zMin = z0, zMax = z1\<rparr>"

definition roomBounds :: "boxBound list" where
  "roomBounds =
    [mkBound (- 5) 5 (- 5) (- 4.5) (- 5) 5,
     mkBound (- 5) 5 2.5 3 (- 5) 5,
     mkBound (- 5) 5 (- 4.5) 2.5 (- 5) (- 4.5),
     mkBound (- 5) 5 (- 4.5) 2.5 4.5 5,
     mkBound (- 5) (- 4.5) (- 4.5) 2.5 (- 5) 5,
     mkBound 4.5 5 (- 4.5) 2.5 (- 5) 5]"

definition cameraRadius :: real where
  "cameraRadius = 0.5"

section \<open>Collision predicates\<close>

text \<open>The closest point computed by lines 85 to 92 of \<^verbatim>\<open>objectCollision\<close>:
  \<^verbatim>\<open>std::max(boxCenter.x - halfSize.x, std::min(sphereCenter.x, boxCenter.x + halfSize.x))\<close>
  on each axis, with \<^verbatim>\<open>halfSize = boxScale * 0.5f\<close>.\<close>

definition closestPoint :: "vec3 \<Rightarrow> vec3 \<Rightarrow> vec3 \<Rightarrow> vec3" where
  "closestPoint sphereCenter boxCenter boxScale =
     (let halfSize = mult_scalar boxScale 0.5;
          x = max (vec_x boxCenter - vec_x halfSize)
                  (min (vec_x sphereCenter) (vec_x boxCenter + vec_x halfSize));
          y = max (vec_y boxCenter - vec_y halfSize)
                  (min (vec_y sphereCenter) (vec_y boxCenter + vec_y halfSize));
          z = max (vec_z boxCenter - vec_z halfSize)
                  (min (vec_z sphereCenter) (vec_z boxCenter + vec_z halfSize))
      in Vec3 x y z)"

definition objectCollision :: "vec3 \<Rightarrow> real \<Rightarrow> vec3 \<Rightarrow> vec3 \<Rightarrow> bool" where
  "objectCollision sphereCenter sphereRadius boxCenter boxScale =
     (let closest = closestPoint sphereCenter boxCenter boxScale;
          distance = vec_length (vec_sub sphereCenter closest)
      in distance < sphereRadius)"

text \<open>The test of one room bound, as the \<^verbatim>\<open>if\<close> of the first loop writes it.\<close>

definition insideBound :: "boxBound \<Rightarrow> vec3 \<Rightarrow> bool" where
  "insideBound bound p \<longleftrightarrow>
     vec_x p \<ge> xMin bound \<and> vec_x p \<le> xMax bound \<and>
     vec_y p \<ge> yMin bound \<and> vec_y p \<le> yMax bound \<and>
     vec_z p \<ge> zMin bound \<and> vec_z p \<le> zMax bound"

text \<open>The first loop of \<^verbatim>\<open>checkCollision\<close>: return at the first bound that holds
  the position.\<close>

fun roomBoundsLoop :: "boxBound list \<Rightarrow> vec3 \<Rightarrow> bool" where
  "roomBoundsLoop [] p = False"
| "roomBoundsLoop (bound # bounds) p =
     (if insideBound bound p then True else roomBoundsLoop bounds p)"

text \<open>The second loop: only an object named \<^verbatim>\<open>"cube"\<close> is tested.\<close>

fun cubesLoop :: "Object list \<Rightarrow> vec3 \<Rightarrow> bool" where
  "cubesLoop [] p = False"
| "cubesLoop (obj # objs) p =
     (if name obj = ''cube''
      then (if objectCollision p cameraRadius (position obj) (scale obj) then True
            else cubesLoop objs p)
      else cubesLoop objs p)"

definition checkCollision :: "vec3 \<Rightarrow> Object list \<Rightarrow> bool" where
  "checkCollision p objects =
     (if roomBoundsLoop roomBounds p then True
      else if cubesLoop objects p then True
      else False)"

section \<open>Camera and keyboard movement\<close>

text \<open>Modelled from the spec: the class \<^verbatim>\<open>Camera\<close> of \<^verbatim>\<open>common/camera.hpp\<close>, whose
  declaration is not among the sources. The spec gives its state as eye, target, the
  basis vectors front, right and up, and the angles yaw and pitch.\<close>

record Camera =
  eye :: vec3
  target :: vec3
  front :: vec3
  right :: vec3
  up :: vec3
  yaw :: real
  pitch :: real

text \<open>The key states read by \<^verbatim>\<open>glfwGetKey\<close> in one call of \<^verbatim>\<open>keyboardInput\<close>.\<close>

record keys =
  key_ESCAPE :: bool
  key_W :: bool
  key_S :: bool
  key_A :: bool
  key_D :: bool

text \<open>The globals of the program and the close flag of the window.\<close>

record world =
  camera :: Camera
  previousTime :: real
  deltaTime :: real
  windowShouldClose :: bool

text \<open>The eye after the four key tests of \<^verbatim>\<open>keyboardInput\<close>, each adding or
  subtracting \<^verbatim>\<open>5.0f * deltaTime\<close> times a basis vector.\<close>

definition displaced :: "keys \<Rightarrow> real \<Rightarrow> Camera \<Rightarrow> vec3" where
  "displaced k dt cam =
     (let e0 = eye cam;
          e1 = (if key_W k then vec_add e0 (scalar_mult (5 * dt) (front cam)) else e0);
          e2 = (if key_S k then vec_sub e1 (scalar_mult (5 * dt) (front cam)) else e1);
          e3 = (if key_A k then vec_sub e2 (scalar_mult (5 * dt) (right cam)) else e2);
          e4 = (if key_D k then vec_add e3 (scalar_mult (5 * dt) (right cam)) else e3)
      in e4)"

text \<open>The eye after the assignment \<^verbatim>\<open>camera.eye.y = -4.0f\<close>: the position
  \<^verbatim>\<open>checkCollision\<close> is called on.\<close>

definition candidate :: "keys \<Rightarrow> real \<Rightarrow> Camera \<Rightarrow> vec3" where
  "candidate k dt cam = (displaced k dt cam)\<lparr>vec_y := - 4\<rparr>"

definition keyboardInput :: "keys \<Rightarrow> Object list \<Rightarrow> world \<Rightarrow> world" where
  "keyboardInput k objects w =
     (let w1 = (if key_ESCAPE k then w\<lparr>windowShouldClose := True\<rparr> else w);
          originalPos = eye (camera w1);
          moved = candidate k (deltaTime w1) (camera w1)
      in if checkCollision moved objects
         then w1\<lparr>camera := (camera w1)\<lparr>eye := originalPos\<rparr>\<rparr>
         else w1\<lparr>camera := (camera w1)\<lparr>eye := moved\<rparr>\<rparr>)"

section \<open>The scene and the initial camera\<close>

text \<open>Modelled from the spec: \<^verbatim>\<open>Maths::radians\<close> of \<^verbatim>\<open>common/maths.hpp\<close> is not
  among the sources; the spec gives rotation angles in radians, so it is the conversion
  from degrees. No collision test reads an angle.\<close>

definition radians :: "real \<Rightarrow> real" where
  "radians d = d * pi / 180"

definition mkObject :: "vec3 \<Rightarrow> vec3 \<Rightarrow> vec3 \<Rightarrow> real \<Rightarrow> string \<Rightarrow> Object" where
  "mkObject p r s a n = \<lparr>position = p, rotation = r, scale = s, angle = a, name = n\<rparr>"

text \<open>The array \<^verbatim>\<open>positions\<close> of \<^verbatim>\<open>main\<close>.\<close>

definition positions :: "vec3 list" where
  "positions =
    [Vec3 (- 3) (- 4.5) (- 3),
     Vec3 (- 1.5) (- 4.5) (- 2),
     Vec3 0 (- 4.5) (- 1.5),
     Vec3 1.5 (- 4.5) (- 1),
     Vec3 3 (- 4.5) (- 0.5),
     Vec3 (- 3) (- 4.5) 0.5,
     Vec3 (- 1.5) (- 4.5) 1,
     Vec3 0 (- 4.5) 1.5,
     Vec3 1.5 (- 4.5) 2,
     Vec3 (- 1) (- 4.5) 0,
     Vec3 3 (- 4.5) 2.5]"

text \<open>The literal \<^verbatim>\<open>0.3f\<close> of the cube scale: the binary32 value nearest to 0.3.\<close>

definition cubeScale :: real where
  "cubeScale = 5033165 / 16777216"

text \<open>The vector \<^verbatim>\<open>objects\<close> as \<^verbatim>\<open>main\<close> has filled it when the render loop starts:
  eleven cubes, then the floor, the ceiling, and the back, right, left and front walls.\<close>

definition sceneObjects :: "Object list" where
  "sceneObjects =
     map (\<lambda>p. mkObject p (Vec3 1 1 1) (Vec3 cubeScale cubeScale cubeScale) (radians 0) ''cube'') positions @
     [mkObject (Vec3 0 (- 5) 0) (Vec3 1 0 0) (Vec3 0.5 0.5 0.5) 0 ''floor'',
      mkObject (Vec3 0 2.75 0) (Vec3 1 0 0) (Vec3 0.5 0.5 0.5) (radians 180) ''ceiling'',
      mkObject (Vec3 0 (- 0.5) (- 5)) (Vec3 1 0 0) (Vec3 0.5 0.5 0.5) (radians 90) ''wall'',
      mkObject (Vec3 5 (- 0.5) 0) (Vec3 0 0 1) (Vec3 0.5 0.5 0.5) (radians 90) ''wall'',
      mkObject (Vec3 (- 5) (- 0.5) 0) (Vec3 0 0 1) (Vec3 0.5 0.5 0.5) (radians (- 90)) ''wall'',
      mkObject (Vec3 0 (- 0.5) 5) (Vec3 1 0 0) (Vec3 0.5 0.5 0.5) (radians (- 90)) ''wall'']"

text \<open>The eye the global \<^verbatim>\<open>camera\<close> is constructed with (line 36).\<close>

definition initialEye :: vec3 where
  "initialEye = Vec3 0 (- 4) 4.5"

text \<open>A world for scenarios: the camera at a given eye with given front and right
  vectors, and a given frame time. The target is \<^verbatim>\<open>eye + front\<close>, as the render loop
  sets it.\<close>

definition worldAt :: "vec3 \<Rightarrow> vec3 \<Rightarrow> vec3 \<Rightarrow> real \<Rightarrow> world" where
  "worldAt e f r dt =
     \<lparr>camera = \<lparr>eye = e, target = vec_add e f, front = f, right = r, up = Vec3 0 1 0,
                 yaw = 0, pitch = 0\<rparr>,
      previousTime = 0, deltaTime = dt, windowShouldClose = False\<rparr>"

definition pressed :: "bool \<Rightarrow> bool \<Rightarrow> bool \<Rightarrow> bool \<Rightarrow> keys" where
  "pressed w s a d = \<lparr>key_ESCAPE = False, key_W = w, key_S = s, key_A = a, key_D = d\<rparr>"

text \<open>The worlds the program can be in. The session starts with the eye at
  \<^const>\<open>initialEye\<close>. In the sources only \<^verbatim>\<open>keyboardInput\<close> assigns \<^verbatim>\<open>camera.eye\<close>;
  the timer update, \<^verbatim>\<open>mouseInput\<close> and the assignment of \<^verbatim>\<open>camera.target\<close> change other
  fields, whatever their values, and are the third rule.\<close>

inductive reachable :: "world \<Rightarrow> bool" where
  start: "eye (camera w) = initialEye \<Longrightarrow> reachable w"
| keyboard: "reachable w \<Longrightarrow> reachable (keyboardInput k objects w)"
| other: "reachable w \<Longrightarrow> eye (camera w') = eye (camera w) \<Longrightarrow> reachable w'"

section \<open>Binary32 arithmetic\<close>

text \<open>
  A binary32 value is a finite number, an infinity or NaN. The two zeros are one value:
  the program never divides, and no comparison tells them apart.
\<close>

datatype f32 = Fin real | PInf | NInf | NaN

text \<open>Rounding to the nearest integer, a tie going to the even one.\<close>

definition round_even :: "real \<Rightarrow> int" where
  "round_even q =
     (let f = \<lfloor>q\<rfloor>; d = q - of_int f
      in if d < 1 / 2 then f else if 1 / 2 < d then f + 1 else if even f then f else f + 1)"

text \<open>The exponent of the unit in the last place of a positive number: 24 significant
  bits for a normal number, and \<open>2 powr - 149\<close> below the normal range.\<close>

definition ulp_exp :: "real \<Rightarrow> int" where
  "ulp_exp a = max (\<lfloor>log 2 a\<rfloor> - 23) (- 149)"

text \<open>A positive number rounded to the nearest multiple of its unit in the last place,
  ties to even.\<close>

definition round_mag :: "real \<Rightarrow> real" where
  "round_mag a = of_int (round_even (a / 2 powr of_int (ulp_exp a))) * 2 powr of_int (ulp_exp a)"

text \<open>Rounding to binary32: the sign times the rounded magnitude, and an infinity when
  the rounded magnitude reaches \<open>2 ^ 128\<close>.\<close>

definition round32 :: "real \<Rightarrow> f32" where
  "round32 x =
     (if x = 0 then Fin 0
      else if 2 ^ 128 \<le> round_mag \<bar>x\<bar> then (if 0 < x then PInf else NInf)
      else Fin (sgn x * round_mag \<bar>x\<bar>))"

text \<open>The comparisons \<^verbatim>\<open><\<close> and \<^verbatim>\<open><=\<close>; every comparison with NaN is false.\<close>

fun flt :: "f32 \<Rightarrow> f32 \<Rightarrow> bool" where
  "flt (Fin x) (Fin y) = (x < y)"
| "flt (Fin x) PInf = True"
| "flt NInf (Fin y) = True"
| "flt NInf PInf = True"
| "flt _ _ = False"

fun fle :: "f32 \<Rightarrow> f32 \<Rightarrow> bool" where
  "fle (Fin x) (Fin y) = (x \<le> y)"
| "fle (Fin x) PInf = True"
| "fle NInf (Fin y) = True"
| "fle NInf PInf = True"
| "fle PInf PInf = True"
| "fle NInf NInf = True"
| "fle _ _ = False"

text \<open>Addition, subtraction, multiplication and square root: the exact result of finite
  operands rounded once, and the IEEE 754 results for infinities and NaN.\<close>

fun fadd :: "f32 \<Rightarrow> f32 \<Rightarrow> f32" where
  "fadd (Fin x) (Fin y) = round32 (x + y)"
| "fadd NaN _ = NaN"
| "fadd _ NaN = NaN"
| "fadd PInf NInf = NaN"
| "fadd NInf PInf = NaN"
| "fadd PInf _ = PInf"
| "fadd _ PInf = PInf"
| "fadd NInf _ = NInf"
| "fadd _ NInf = NInf"

fun fsub :: "f32 \<Rightarrow> f32 \<Rightarrow> f32" where
  "fsub (Fin x) (Fin y) = round32 (x - y)"
| "fsub NaN _ = NaN"
| "fsub _ NaN = NaN"
| "fsub PInf PInf = NaN"
| "fsub NInf NInf = NaN"
| "fsub PInf _ = PInf"
| "fsub _ PInf = NInf"
| "fsub NInf _ = NInf"
| "fsub _ NInf = PInf"

fun fmul :: "f32 \<Rightarrow> f32 \<Rightarrow> f32" where
  "fmul (Fin x) (Fin y) = round32 (x * y)"
| "fmul NaN _ = NaN"
| "fmul _ NaN = NaN"
| "fmul (Fin x) PInf = (if x = 0 then NaN else if 0 < x then PInf else NInf)"
| "fmul (Fin x) NInf = (if x = 0 then NaN else if 0 < x then NInf else PInf)"
| "fmul PInf (Fin y) = (if y = 0 then NaN else if 0 < y then PInf else NInf)"
| "fmul NInf (Fin y) = (if y = 0 then NaN else if 0 < y then NInf else PInf)"
| "fmul PInf PInf = PInf"
| "fmul NInf NInf = PInf"
| "fmul PInf NInf = NInf"
| "fmul NInf PInf = NInf"

fun fsqrt :: "f32 \<Rightarrow> f32" where
  "fsqrt (Fin x) = (if x < 0 then NaN else round32 (sqrt x))"
| "fsqrt PInf = PInf"
| "fsqrt NInf = NaN"
| "fsqrt NaN = NaN"

text \<open>\<^verbatim>\<open>std::min(a, b)\<close> is \<^verbatim>\<open>(b < a) ? b : a\<close> and \<^verbatim>\<open>std::max(a, b)\<close> is
  \<^verbatim>\<open>(a < b) ? b : a\<close>.\<close>

definition std_min :: "f32 \<Rightarrow> f32 \<Rightarrow> f32" where
  "std_min a b = (if flt b a then b else a)"

definition std_max :: "f32 \<Rightarrow> f32 \<Rightarrow> f32" where
  "std_max a b = (if flt a b then b else a)"

text \<open>\<^verbatim>\<open>glm::vec3\<close> with binary32 coordinates, and its componentwise operations.\<close>

record fvec3 =
  fvec_x :: f32
  fvec_y :: f32
  fvec_z :: f32

definition FVec3 :: "f32 \<Rightarrow> f32 \<Rightarrow> f32 \<Rightarrow> fvec3" where
  "FVec3 a b c = \<lparr>fvec_x = a, fvec_y = b, fvec_z = c\<rparr>"

definition fvec_add :: "fvec3 \<Rightarrow> fvec3 \<Rightarrow> fvec3" where
  "fvec_add v w = FVec3 (fadd (fvec_x v) (fvec_x w)) (fadd (fvec_y v) (fvec_y w))
     (fadd (fvec_z v) (fvec_z w))"

definition fvec_sub :: "fvec3 \<Rightarrow> fvec3 \<Rightarrow> fvec3" where
  "fvec_sub v w = FVec3 (fsub (fvec_x v) (fvec_x w)) (fsub (fvec_y v) (fvec_y w))
     (fsub (fvec_z v) (fvec_z w))"

definition fvec_scalar_mult :: "f32 \<Rightarrow> fvec3 \<Rightarrow> fvec3" where
  "fvec_scalar_mult s v = FVec3 (fmul s (fvec_x v)) (fmul s (fvec_y v)) (fmul s (fvec_z v))"

definition fvec_mult_scalar :: "fvec3 \<Rightarrow> f32 \<Rightarrow> fvec3" where
  "fvec_mult_scalar v s = FVec3 (fmul (fvec_x v) s) (fmul (fvec_y v) s) (fmul (fvec_z v) s)"

text \<open>\<^verbatim>\<open>glm::length(v)\<close> is \<^verbatim>\<open>sqrt(dot(v, v))\<close>, and \<^verbatim>\<open>dot\<close> of two \<^verbatim>\<open>vec3\<close> adds the
  three products from left to right; each product, each sum and the square root is
  rounded.\<close>

definition fvec_length :: "fvec3 \<Rightarrow> f32" where
  "fvec_length v =
     fsqrt (fadd (fadd (fmul (fvec_x v) (fvec_x v)) (fmul (fvec_y v) (fvec_y v)))
                 (fmul (fvec_z v) (fvec_z v)))"

section \<open>The collision test and the keyboard step in binary32\<close>

text \<open>\<^verbatim>\<open>objectCollision\<close>, lines 83 to 98, operation by operation.\<close>

definition closestPoint32 :: "fvec3 \<Rightarrow> fvec3 \<Rightarrow> fvec3 \<Rightarrow> fvec3" where
  "closestPoint32 sphereCenter boxCenter boxScale =
     (let halfSize = fvec_mult_scalar boxScale (Fin 0.5);
          x = std_max (fsub (fvec_x boxCenter) (fvec_x halfSize))
                (std_min (fvec_x sphereCenter) (fadd (fvec_x boxCenter) (fvec_x halfSize)));
          y = std_max (fsub (fvec_y boxCenter) (fvec_y halfSize))
                (std_min (fvec_y sphereCenter) (fadd (fvec_y boxCenter) (fvec_y halfSize)));
          z = std_max (fsub (fvec_z boxCenter) (fvec_z halfSize))
                (std_min (fvec_z sphereCenter) (fadd (fvec_z boxCenter) (fvec_z halfSize)))
      in FVec3 x y z)"

definition objectCollision32 :: "fvec3 \<Rightarrow> f32 \<Rightarrow> fvec3 \<Rightarrow> fvec3 \<Rightarrow> bool" where
  "objectCollision32 sphereCenter sphereRadius boxCenter boxScale =
     (let closest = closestPoint32 sphereCenter boxCenter boxScale;
          distance = fvec_length (fvec_sub sphereCenter closest)
      in flt distance sphereRadius)"

text \<open>\<^verbatim>\<open>struct Object\<close> with binary32 fields.\<close>

record Object32 =
  position32 :: fvec3
  rotation32 :: fvec3
  scale32 :: fvec3
  angle32 :: f32
  name32 :: string

text \<open>\<^verbatim>\<open>checkCollision\<close>, lines 59 to 80. The bounds of the table are finite constants,
  compared with the position as the source writes the six tests.\<close>

definition insideBound32 :: "boxBound \<Rightarrow> fvec3 \<Rightarrow> bool" where
  "insideBound32 bound p \<longleftrightarrow>
     fle (Fin (xMin bound)) (fvec_x p) \<and> fle (fvec_x p) (Fin (xMax bound)) \<and>
     fle (Fin (yMin bound)) (fvec_y p) \<and> fle (fvec_y p) (Fin (yMax bound)) \<and>
     fle (Fin (zMin bound)) (fvec_z p) \<and> fle (fvec_z p) (Fin (zMax bound))"

fun roomBoundsLoop32 :: "boxBound list \<Rightarrow> fvec3 \<Rightarrow> bool" where
  "roomBoundsLoop32 [] p = False"
| "roomBoundsLoop32 (bound # bounds) p =
     (if insideBound32 bound p then True else roomBoundsLoop32 bounds p)"

fun cubesLoop32 :: "Object32 list \<Rightarrow> fvec3 \<Rightarrow> bool" where
  "cubesLoop32 [] p = False"
| "cubesLoop32 (obj # objs) p =
     (if name32 obj = ''cube''
      then (if objectCollision32 p (Fin cameraRadius) (position32 obj) (scale32 obj) then True
            else cubesLoop32 objs p)
      else cubesLoop32 objs p)"

definition checkCollision32 :: "fvec3 \<Rightarrow> Object32 list \<Rightarrow> bool" where
  "checkCollision32 p objects =
     (if roomBoundsLoop32 roomBounds p then True
      else if cubesLoop32 objects p then True
      else False)"

text \<open>Modelled from the spec: the class \<^verbatim>\<open>Camera\<close> of \<^verbatim>\<open>common/camera.hpp\<close>, with
  binary32 fields.\<close>

record Camera32 =
  eye32 :: fvec3
  target32 :: fvec3
  front32 :: fvec3
  right32 :: fvec3
  up32 :: fvec3
  yaw32 :: f32
  pitch32 :: f32

record world32 =
  camera32 :: Camera32
  previousTime32 :: f32
  deltaTime32 :: f32
  windowShouldClose32 :: bool

text \<open>\<^verbatim>\<open>keyboardInput\<close>, lines 384 to 412: \<^verbatim>\<open>5.0f * deltaTime\<close> is rounded, then each
  product with a coordinate of the basis vector, then each sum or difference with a
  coordinate of the eye.\<close>

definition displaced32 :: "keys \<Rightarrow> f32 \<Rightarrow> Camera32 \<Rightarrow> fvec3" where
  "displaced32 k dt cam =
     (let e0 = eye32 cam;
          e1 = (if key_W k
                then fvec_add e0 (fvec_scalar_mult (fmul (Fin 5) dt) (front32 cam)) else e0);
          e2 = (if key_S k
                then fvec_sub e1 (fvec_scalar_mult (fmul (Fin 5) dt) (front32 cam)) else e1);
          e3 = (if key_A k
                then fvec_sub e2 (fvec_scalar_mult (fmul (Fin 5) dt) (right32 cam)) else e2);
          e4 = (if key_D k
                then fvec_add e3 (fvec_scalar_mult (fmul (Fin 5) dt) (right32 cam)) else e3)
      in e4)"

definition candidate32 :: "keys \<Rightarrow> f32 \<Rightarrow> Camera32 \<Rightarrow> fvec3" where
  "candidate32 k dt cam = (displaced32 k dt cam)\<lparr>fvec_y := Fin (- 4)\<rparr>"

definition keyboardInput32 :: "keys \<Rightarrow> Object32 list \<Rightarrow> world32 \<Rightarrow> world32" where
  "keyboardInput32 k objects w =
     (let w1 = (if key_ESCAPE k then w\<lparr>windowShouldClose32 := True\<rparr> else w);
          originalPos = eye32 (camera32 w1);
          moved = candidate32 k (deltaTime32 w1) (camera32 w1)
      in if checkCollision32 moved objects
         then w1\<lparr>camera32 := (camera32 w1)\<lparr>eye32 := originalPos\<rparr>\<rparr>
         else w1\<lparr>camera32 := (camera32 w1)\<lparr>eye32 := moved\<rparr>\<rparr>)"

text \<open>A binary32 world for scenarios.\<close>

definition worldAt32 :: "fvec3 \<Rightarrow> fvec3 \<Rightarrow> fvec3 \<Rightarrow> f32 \<Rightarrow> world32" where
  "worldAt32 e f r dt =
     \<lparr>camera32 = \<lparr>eye32 = e, target32 = fvec_add e f, front32 = f, right32 = r,
                   up32 = FVec3 (Fin 0) (Fin 1) (Fin 0), yaw32 = Fin 0, pitch32 = Fin 0\<rparr>,
      previousTime32 = Fin 0, deltaTime32 = dt, windowShouldClose32 = False\<rparr>"

section \<open>Notions of the specification\<close>

text \<open>Finite values, and the number a finite value denotes.\<close>

fun is_finite :: "f32 \<Rightarrow> bool" where
  "is_finite (Fin x) = True"
| "is_finite _ = False"

fun value32 :: "f32 \<Rightarrow> real" where
  "value32 (Fin x) = x"
| "value32 _ = 0"

definition fvec_finite :: "fvec3 \<Rightarrow> bool" where
  "fvec_finite v \<longleftrightarrow> is_finite (fvec_x v) \<and> is_finite (fvec_y v) \<and> is_finite (fvec_z v)"

definition fvec_value :: "fvec3 \<Rightarrow> vec3" where
  "fvec_value v = Vec3 (value32 (fvec_x v)) (value32 (fvec_y v)) (value32 (fvec_z v))"

text \<open>Clamping a value into the interval from \<open>lo\<close> to \<open>hi\<close>, as the specification words
  it: a value below the interval goes to \<open>lo\<close>, one above it to \<open>hi\<close>, one inside stays.\<close>

definition clampSpec32 :: "f32 \<Rightarrow> f32 \<Rightarrow> f32 \<Rightarrow> f32" where
  "clampSpec32 lo hi v = (if flt v lo then lo else if flt hi v then hi else v)"

text \<open>The box of the specification's sphere-box test: on each axis the interval from
  \<open>boxCenter - half\<close> to \<open>boxCenter + half\<close>, where \<open>half\<close> is the scale times 0.5, the
  three operations in binary32.\<close>

definition boxLo :: "f32 \<Rightarrow> f32 \<Rightarrow> f32" where
  "boxLo c k = fsub c (fmul k (Fin 0.5))"

definition boxHi :: "f32 \<Rightarrow> f32 \<Rightarrow> f32" where
  "boxHi c k = fadd c (fmul k (Fin 0.5))"

definition inBoxSpec32 :: "fvec3 \<Rightarrow> fvec3 \<Rightarrow> fvec3 \<Rightarrow> bool" where
  "inBoxSpec32 boxCenter boxScale q \<longleftrightarrow>
     fle (boxLo (fvec_x boxCenter) (fvec_x boxScale)) (fvec_x q) \<and>
     fle (fvec_x q) (boxHi (fvec_x boxCenter) (fvec_x boxScale)) \<and>
     fle (boxLo (fvec_y boxCenter) (fvec_y boxScale)) (fvec_y q) \<and>
     fle (fvec_y q) (boxHi (fvec_y boxCenter) (fvec_y boxScale)) \<and>
     fle (boxLo (fvec_z boxCenter) (fvec_z boxScale)) (fvec_z q) \<and>
     fle (fvec_z q) (boxHi (fvec_z boxCenter) (fvec_z boxScale))"

text \<open>The squared Euclidean distance of two points.\<close>

definition sqDistance :: "vec3 \<Rightarrow> vec3 \<Rightarrow> real" where
  "sqDistance p q =
     (vec_x p - vec_x q) * (vec_x p - vec_x q) +
     (vec_y p - vec_y q) * (vec_y p - vec_y q) +
     (vec_z p - vec_z q) * (vec_z p - vec_z q)"

section \<open>Basic facts\<close>

lemma Vec3_sel [simp]:
  "vec_x (Vec3 a b c) = a" "vec_y (Vec3 a b c) = b" "vec_z (Vec3 a b c) = c"
  by (simp_all add: Vec3_def)

lemma mkBound_sel [simp]:
  "xMin (mkBound x0 x1 y0 y1 z0 z1) = x0" "xMax (mkBound x0 x1 y0 y1 z0 z1) = x1"
  "yMin (mkBound x0 x1 y0 y1 z0 z1) = y0" "yMax (mkBound x0 x1 y0 y1 z0 z1) = y1"
  "zMin (mkBound x0 x1 y0 y1 z0 z1) = z0" "zMax (mkBound x0 x1 y0 y1 z0 z1) = z1"
  by (simp_all add: mkBound_def)

lemma mkObject_sel [simp]:
  "position (mkObject p r s a n) = p" "scale (mkObject p r s a n) = s"
  "name (mkObject p r s a n) = n"
  by (simp_all add: mkObject_def)

text \<open>A square root is below a bound exactly when the bound is positive and its square
  is above the argument; this removes the root from the distance test.\<close>

lemma sqrt_less_iff: "0 \<le> a \<Longrightarrow> sqrt a < r \<longleftrightarrow> 0 < r \<and> a < r * r"
proof
  assume a: "0 \<le> a" and l: "sqrt a < r"
  have "0 \<le> sqrt a" using a by simp
  then have r: "0 < r" using l by linarith
  have "sqrt (r * r) = r" using r by simp
  then have "sqrt a < sqrt (r * r)" using l by simp
  then have "a < r * r" by (simp only: real_sqrt_less_iff)
  then show "0 < r \<and> a < r * r" using r by simp
next
  assume a: "0 \<le> a" and h: "0 < r \<and> a < r * r"
  then have "sqrt a < sqrt (r * r)" by (simp only: real_sqrt_less_iff)
  then show "sqrt a < r" using h by simp
qed

lemma sqDistance_nonneg: "0 \<le> sqDistance p q"
  by (simp add: sqDistance_def)

lemma vec_length_sub: "vec_length (vec_sub p q) = sqrt (sqDistance p q)"
  by (simp add: vec_length_def vec_sub_def sqDistance_def)

lemma objectCollision_iff:
  "objectCollision s r c sc \<longleftrightarrow> 0 < r \<and> sqDistance s (closestPoint s c sc) < r * r"
  by (simp add: objectCollision_def vec_length_sub sqrt_less_iff sqDistance_nonneg)

lemma closestPoint_eval:
  "closestPoint (Vec3 a b c) (Vec3 d e f) (Vec3 g h i) =
     Vec3 (max (d - g * 0.5) (min a (d + g * 0.5)))
          (max (e - h * 0.5) (min b (e + h * 0.5)))
          (max (f - i * 0.5) (min c (f + i * 0.5)))"
  by (simp add: closestPoint_def mult_scalar_def Let_def)

lemma roomBoundsLoop_iff: "roomBoundsLoop bs p \<longleftrightarrow> (\<exists>b \<in> set bs. insideBound b p)"
  by (induction bs) auto

lemma cubesLoop_iff:
  "cubesLoop objs p \<longleftrightarrow>
     (\<exists>obj \<in> set objs. name obj = ''cube'' \<and>
        objectCollision p cameraRadius (position obj) (scale obj))"
  by (induction objs) auto

lemma checkCollision_iff:
  "checkCollision p objects \<longleftrightarrow>
     (\<exists>b \<in> set roomBounds. insideBound b p) \<or>
     (\<exists>obj \<in> set objects. name obj = ''cube'' \<and>
        objectCollision p cameraRadius (position obj) (scale obj))"
  by (simp add: checkCollision_def roomBoundsLoop_iff cubesLoop_iff)

lemma cubesLoop_filter:
  "cubesLoop (filter (\<lambda>obj. name obj = ''cube'') objs) p = cubesLoop objs p"
  by (induction objs) auto

text \<open>With a scale that is not negative on any axis, the box centre is its own closest
  point.\<close>

lemma closestPoint_center:
  assumes "0 \<le> vec_x sc" "0 \<le> vec_y sc" "0 \<le> vec_z sc"
  shows "sqDistance c (closestPoint c c sc) = 0"
  using assms
  by (simp add: closestPoint_def mult_scalar_def Let_def sqDistance_def max_def min_def)

lemma objectCollision_center:
  assumes "0 \<le> vec_x sc" "0 \<le> vec_y sc" "0 \<le> vec_z sc"
  shows "objectCollision c cameraRadius c sc"
  using assms by (simp add: objectCollision_iff closestPoint_center cameraRadius_def)

lemma sceneObjects_first_cube:
  "mkObject (Vec3 (- 3) (- 4.5) (- 3)) (Vec3 1 1 1) (Vec3 cubeScale cubeScale cubeScale) (radians 0) ''cube''
     \<in> set sceneObjects"
  by (simp add: sceneObjects_def positions_def)

text \<open>Two vectors with the same coordinates are equal.\<close>

lemma vec3_eqI:
  fixes p q :: vec3
  shows "vec_x p = vec_x q \<Longrightarrow> vec_y p = vec_y q \<Longrightarrow> vec_z p = vec_z q \<Longrightarrow> p = q"
  by simp

lemma Vec3_eq_iff [simp]: "Vec3 a b c = Vec3 a' b' c' \<longleftrightarrow> a = a' \<and> b = b' \<and> c = c'"
  by (simp add: Vec3_def)

lemma vec_ops_sel [simp]:
  "vec_x (vec_add v w) = vec_x v + vec_x w" "vec_y (vec_add v w) = vec_y v + vec_y w"
  "vec_z (vec_add v w) = vec_z v + vec_z w"
  "vec_x (vec_sub v w) = vec_x v - vec_x w" "vec_y (vec_sub v w) = vec_y v - vec_y w"
  "vec_z (vec_sub v w) = vec_z v - vec_z w"
  "vec_x (scalar_mult a v) = a * vec_x v" "vec_y (scalar_mult a v) = a * vec_y v"
  "vec_z (scalar_mult a v) = a * vec_z v"
  by (simp_all add: vec_add_def vec_sub_def scalar_mult_def)

lemma worldAt_sel [simp]:
  "eye (camera (worldAt e f r dt)) = e" "front (camera (worldAt e f r dt)) = f"
  "right (camera (worldAt e f r dt)) = r" "deltaTime (worldAt e f r dt) = dt"
  by (simp_all add: worldAt_def)

lemma pressed_sel [simp]:
  "key_ESCAPE (pressed w s a d) = False" "key_W (pressed w s a d) = w"
  "key_S (pressed w s a d) = s" "key_A (pressed w s a d) = a" "key_D (pressed w s a d) = d"
  by (simp_all add: pressed_def)

subsection \<open>The keyboard step\<close>

lemma keyboardInput_eye:
  "eye (camera (keyboardInput k objects w)) =
     (if checkCollision (candidate k (deltaTime w) (camera w)) objects
      then eye (camera w) else candidate k (deltaTime w) (camera w))"
  by (simp add: keyboardInput_def Let_def)

lemma candidate_y: "vec_y (candidate k dt cam) = - 4"
  by (simp add: candidate_def)

lemma displaced_eval:
  "displaced (pressed kw ks ka kd) dt
     (camera (worldAt (Vec3 a b c) (Vec3 f1 f2 f3) (Vec3 r1 r2 r3) dt')) =
   Vec3 (a + 5 * dt * ((of_bool kw - of_bool ks) * f1 + (of_bool kd - of_bool ka) * r1))
        (b + 5 * dt * ((of_bool kw - of_bool ks) * f2 + (of_bool kd - of_bool ka) * r2))
        (c + 5 * dt * ((of_bool kw - of_bool ks) * f3 + (of_bool kd - of_bool ka) * r3))"
  by (rule vec3_eqI) (simp_all add: displaced_def Let_def algebra_simps)

lemma candidate_eval:
  "candidate (pressed kw ks ka kd) dt
     (camera (worldAt (Vec3 a b c) (Vec3 f1 f2 f3) (Vec3 r1 r2 r3) dt')) =
   Vec3 (a + 5 * dt * ((of_bool kw - of_bool ks) * f1 + (of_bool kd - of_bool ka) * r1))
        (- 4)
        (c + 5 * dt * ((of_bool kw - of_bool ks) * f3 + (of_bool kd - of_bool ka) * r3))"
  by (rule vec3_eqI) (simp_all add: candidate_def displaced_eval)

text \<open>Every reachable world has its eye at the floor height: the keyboard step either
  sets the height or restores an eye that already had it.\<close>

lemma reachable_y: "reachable w \<Longrightarrow> vec_y (eye (camera w)) = - 4"
proof (induction rule: reachable.induct)
  case (start w)
  then show ?case by (simp add: initialEye_def)
next
  case (keyboard w k objects)
  then show ?case by (simp add: keyboardInput_eye candidate_y)
next
  case (other w w')
  then show ?case by simp
qed

subsection \<open>One step forward from the initial eye, in the scene\<close>

lemma no_bound_forward: "\<not> roomBoundsLoop roomBounds (Vec3 0 (- 4) (- 0.5))"
  by (simp add: roomBounds_def insideBound_def)

lemma no_cube_forward: "\<not> cubesLoop sceneObjects (Vec3 0 (- 4) (- 0.5))"
  apply (simp add: sceneObjects_def positions_def)
  apply (simp add: objectCollision_iff closestPoint_eval sqDistance_def cameraRadius_def
      cubeScale_def)
  done

lemma no_collision_forward: "\<not> checkCollision (Vec3 0 (- 4) (- 0.5)) sceneObjects"
  using no_bound_forward no_cube_forward by (simp add: checkCollision_def)

section \<open>Facts of binary32 arithmetic\<close>

subsection \<open>Rounding is monotone\<close>

lemma round_even_of_int [simp]: "round_even (of_int n) = n"
  by (simp add: round_even_def)

lemma round_even_bounds: "\<lfloor>q\<rfloor> \<le> round_even q \<and> round_even q \<le> \<lfloor>q\<rfloor> + 1"
  by (simp add: round_even_def Let_def)

lemma round_even_mono: "q \<le> q' \<Longrightarrow> round_even q \<le> round_even q'"
proof -
  assume le: "q \<le> q'"
  have fl: "\<lfloor>q\<rfloor> \<le> \<lfloor>q'\<rfloor>" using le by (rule floor_mono)
  show ?thesis
  proof (cases "\<lfloor>q\<rfloor> = \<lfloor>q'\<rfloor>")
    case True
    then show ?thesis using le by (auto simp add: round_even_def Let_def)
  next
    case False
    then have "\<lfloor>q\<rfloor> + 1 \<le> \<lfloor>q'\<rfloor>" using fl by linarith
    then show ?thesis using round_even_bounds [of q] round_even_bounds [of q'] by linarith
  qed
qed

lemma round_even_near:
  assumes "\<bar>q - of_int n\<bar> < 1 / 2"
  shows "round_even q = n"
proof (cases "of_int n \<le> q")
  case True
  then have f: "\<lfloor>q\<rfloor> = n" using assms by (intro floor_unique) linarith+
  show ?thesis using assms True by (simp add: round_even_def Let_def f)
next
  case False
  then have f: "\<lfloor>q\<rfloor> = n - 1" using assms by (intro floor_unique) (simp, linarith)+
  show ?thesis using assms False by (simp add: round_even_def Let_def f)
qed

lemma floor_log2:
  assumes "2 powr of_int e \<le> a" "a < 2 powr of_int (e + 1)"
  shows "\<lfloor>log 2 a\<rfloor> = e"
proof -
  have "0 < (2::real) powr of_int e" by simp
  then have pos: "0 < a" using assms(1) by linarith
  have "of_int e \<le> log 2 a" using assms(1) pos by (simp add: le_log_iff)
  moreover have "log 2 a < of_int e + 1" using assms(2) pos by (simp add: log_less_iff add.commute)
  ultimately show ?thesis by (intro floor_unique) auto
qed

lemma powr2_add_nat: "2 powr (of_int (k + int n)) = (2::real) powr of_int k * 2 ^ n"
  by (simp add: powr_add powr_realpow)

lemma ulp_exp_mono: "0 < a \<Longrightarrow> a \<le> b \<Longrightarrow> ulp_exp a \<le> ulp_exp b"
proof -
  assume "0 < a" "a \<le> b"
  then have "log 2 a \<le> log 2 b" by simp
  then have "\<lfloor>log 2 a\<rfloor> \<le> \<lfloor>log 2 b\<rfloor>" by (rule floor_mono)
  then show ?thesis by (simp add: ulp_exp_def)
qed

lemma below_binade: 
  assumes "0 < a"
  shows "a < 2 powr of_int (ulp_exp a) * 2 ^ 24"
proof -
  have "\<lfloor>log 2 a\<rfloor> \<le> ulp_exp a + 23" by (simp add: ulp_exp_def)
  then have "real_of_int \<lfloor>log 2 a\<rfloor> + 1 \<le> of_int (ulp_exp a + 24)" by simp
  moreover have "log 2 a < real_of_int \<lfloor>log 2 a\<rfloor> + 1" by linarith
  ultimately have "log 2 a < of_int (ulp_exp a + 24)" by linarith
  then have "a < 2 powr of_int (ulp_exp a + 24)" using assms by (simp add: log_less_iff)
  then show ?thesis using powr2_add_nat [of "ulp_exp a" 24] by simp
qed

lemma above_binade:
  assumes "0 < a" "- 149 < ulp_exp a"
  shows "2 powr of_int (ulp_exp a) * 2 ^ 23 \<le> a"
proof -
  have "ulp_exp a = \<lfloor>log 2 a\<rfloor> - 23" using assms(2) by (simp add: ulp_exp_def max_def split: if_splits)
  then have "of_int (ulp_exp a + 23) \<le> log 2 a" by simp
  then have "2 powr of_int (ulp_exp a + 23) \<le> a" using assms(1) by (simp add: le_log_iff)
  then show ?thesis using powr2_add_nat [of "ulp_exp a" 23] by simp
qed

lemma round_mag_upper:
  assumes "0 < a"
  shows "round_mag a \<le> 2 powr of_int (ulp_exp a) * 2 ^ 24"
proof -
  let ?u = "(2::real) powr of_int (ulp_exp a)"
  have u: "0 < ?u" by simp
  have "a / ?u < 2 ^ 24" using below_binade [OF assms] u by (simp add: divide_less_eq mult.commute)
  then have "a / ?u \<le> of_int (2 ^ 24)" by simp
  then have "round_even (a / ?u) \<le> round_even (of_int (2 ^ 24))" by (rule round_even_mono)
  then have "round_even (a / ?u) \<le> 2 ^ 24" by (simp only: round_even_of_int)
  then have "real_of_int (round_even (a / ?u)) \<le> 2 ^ 24" by (metis of_int_le_iff of_int_numeral of_int_power)
  then have "real_of_int (round_even (a / ?u)) * ?u \<le> 2 ^ 24 * ?u" using u by (simp only: mult_le_cancel_right_pos)
  then show ?thesis by (simp add: round_mag_def mult.commute)
qed

lemma round_mag_lower:
  assumes "0 < a" "- 149 < ulp_exp a"
  shows "2 powr of_int (ulp_exp a) * 2 ^ 23 \<le> round_mag a"
proof -
  let ?u = "(2::real) powr of_int (ulp_exp a)"
  have u: "0 < ?u" by simp
  have "2 ^ 23 \<le> a / ?u" using above_binade [OF assms] u by (simp add: le_divide_eq mult.commute)
  then have "of_int (2 ^ 23) \<le> a / ?u" by simp
  then have "round_even (of_int (2 ^ 23)) \<le> round_even (a / ?u)" by (rule round_even_mono)
  then have "2 ^ 23 \<le> round_even (a / ?u)" by (simp only: round_even_of_int)
  then have "2 ^ 23 \<le> real_of_int (round_even (a / ?u))" by (metis of_int_le_iff of_int_numeral of_int_power)
  then have "2 ^ 23 * ?u \<le> real_of_int (round_even (a / ?u)) * ?u" using u by (simp only: mult_le_cancel_right_pos)
  then show ?thesis by (simp add: round_mag_def mult.commute)
qed

lemma round_mag_nonneg: "0 \<le> a \<Longrightarrow> 0 \<le> round_mag a"
proof -
  assume a: "0 \<le> a"
  have "0 \<le> a / 2 powr of_int (ulp_exp a)" using a by simp
  then have "round_even (of_int 0) \<le> round_even (a / 2 powr of_int (ulp_exp a))"
    by (intro round_even_mono) simp
  then have "0 \<le> round_even (a / 2 powr of_int (ulp_exp a))" by (simp only: round_even_of_int)
  then show ?thesis by (simp add: round_mag_def)
qed

lemma round_mag_mono:
  assumes "0 < a" "a \<le> b"
  shows "round_mag a \<le> round_mag b"
proof (cases "ulp_exp a = ulp_exp b")
  case True
  let ?u = "(2::real) powr of_int (ulp_exp b)"
  have "a / ?u \<le> b / ?u" using assms(2) by (simp add: divide_right_mono)
  then have "round_even (a / ?u) \<le> round_even (b / ?u)" by (rule round_even_mono)
  then have "real_of_int (round_even (a / ?u)) * ?u \<le> real_of_int (round_even (b / ?u)) * ?u"
    by (simp add: mult_right_mono)
  then show ?thesis by (simp add: round_mag_def True)
next
  case False
  have b: "0 < b" using assms by linarith
  have lt: "ulp_exp a + 1 \<le> ulp_exp b" using ulp_exp_mono [OF assms] False by linarith
  have "- 149 \<le> ulp_exp a" by (simp add: ulp_exp_def)
  then have nb: "- 149 < ulp_exp b" using lt by linarith
  have "round_mag a \<le> 2 powr of_int (ulp_exp a) * 2 ^ 24" by (rule round_mag_upper [OF assms(1)])
  also have "\<dots> = 2 powr of_int (ulp_exp a + 1) * 2 ^ 23"
    using powr2_add_nat [of "ulp_exp a" 1] by simp
  also have "\<dots> \<le> 2 powr of_int (ulp_exp b) * 2 ^ 23"
    using lt by (simp del: of_int_add)
  also have "\<dots> \<le> round_mag b" by (rule round_mag_lower [OF b nb])
  finally show ?thesis .
qed

lemma round32_zero [simp]: "round32 0 = Fin 0"
  by (simp add: round32_def)

lemma round32_pos:
  "0 < x \<Longrightarrow> round32 x = (if 2 ^ 128 \<le> round_mag x then PInf else Fin (round_mag x))"
  by (simp add: round32_def)

lemma round32_neg:
  "x < 0 \<Longrightarrow> round32 x = (if 2 ^ 128 \<le> round_mag (- x) then NInf else Fin (- round_mag (- x)))"
  by (simp add: round32_def)

lemma round32_mono:
  assumes "x \<le> y"
  shows "fle (round32 x) (round32 y)"
proof -
  consider "0 < x" | "y < 0" | "x \<le> 0" "0 \<le> y" by linarith
  then show ?thesis
  proof cases
    case 1
    then have y: "0 < y" using assms by linarith
    have "round_mag x \<le> round_mag y" using 1 assms by (rule round_mag_mono)
    then show ?thesis by (simp add: round32_pos 1 y)
  next
    case 2
    then have x: "x < 0" using assms by linarith
    have "round_mag (- y) \<le> round_mag (- x)" using 2 assms by (intro round_mag_mono) simp_all
    then show ?thesis by (simp add: round32_neg 2 x)
  next
    case 3
    have a: "fle (round32 x) (Fin 0)"
    proof (cases "x = 0")
      case True
      then show ?thesis by simp
    next
      case False
      then have x: "x < 0" using 3 by linarith
      have "0 \<le> round_mag (- x)" using x by (intro round_mag_nonneg) simp
      then show ?thesis by (simp add: round32_neg x)
    qed
    have b: "fle (Fin 0) (round32 y)"
    proof (cases "y = 0")
      case True
      then show ?thesis by simp
    next
      case False
      then have y: "0 < y" using 3 by linarith
      have "0 \<le> round_mag y" using y by (intro round_mag_nonneg) simp
      then show ?thesis by (simp add: round32_pos y)
    qed
    show ?thesis using a b by (cases "round32 x"; cases "round32 y") auto
  qed
qed

lemma round32_not_NaN [simp]: "round32 x \<noteq> NaN"
  by (simp add: round32_def)

subsection \<open>Evaluating a rounding\<close>

text \<open>A number whose multiple by \<open>2 ^ p\<close> lies between \<open>2 ^ 23\<close> and \<open>2 ^ 24\<close> has the unit
  \<open>1 / 2 ^ p\<close> in its last place, and rounds to the multiple of that unit that is less
  than half a unit away.\<close>

lemma ulp_exp_small:
  assumes "2 ^ 23 \<le> a * 2 ^ p" "a * 2 ^ p < 2 ^ 24" "p \<le> 149"
  shows "ulp_exp a = - int p"
proof -
  have e1: "(2::real) powr of_int (23 - int p) = 2 ^ 23 / 2 ^ p"
    by (simp add: powr_diff powr_realpow)
  have e2: "(2::real) powr of_int (23 - int p + 1) = 2 ^ 24 / 2 ^ p"
    using powr_diff [of 2 24 "real p"] by (simp add: powr_realpow)
  have "2 powr of_int (23 - int p) \<le> a" unfolding e1 using assms(1) by (simp add: divide_le_eq)
  moreover have "a < 2 powr of_int (23 - int p + 1)" unfolding e2 using assms(2) by (simp add: less_divide_eq)
  ultimately have "\<lfloor>log 2 a\<rfloor> = 23 - int p" by (rule floor_log2)
  then show ?thesis using assms(3) by (simp add: ulp_exp_def)
qed

lemma round_mag_near_small:
  assumes "2 ^ 23 \<le> a * 2 ^ p" "a * 2 ^ p < 2 ^ 24" "p \<le> 149"
    and "\<bar>a * 2 ^ p - of_int n\<bar> < 1 / 2"
  shows "round_mag a = of_int n / 2 ^ p"
proof -
  have u: "ulp_exp a = - int p" using assms(1-3) by (rule ulp_exp_small)
  have pw: "(2::real) powr of_int (- int p) = 1 / 2 ^ p"
    by (simp add: powr_minus powr_realpow divide_inverse)
  have "round_even (a * 2 ^ p) = n" using assms(4) by (rule round_even_near)
  then have "real_of_int (round_even (a / (1 / 2 ^ p))) * (1 / 2 ^ p) = real_of_int n / 2 ^ p"
    by simp
  then show ?thesis unfolding round_mag_def u pw .
qed

lemma round32_near_pos:
  assumes "2 ^ 23 \<le> x * 2 ^ p" "x * 2 ^ p < 2 ^ 24" "p \<le> 149"
    and "\<bar>x * 2 ^ p - of_int n\<bar> < 1 / 2"
  shows "round32 x = Fin (of_int n / 2 ^ p)"
proof -
  have "(0::real) < 2 ^ 23" by simp
  then have "0 < x * 2 ^ p" using assms(1) by linarith
  then have pos: "0 < x" by (simp add: zero_less_mult_iff)
  have m: "round_mag x = of_int n / 2 ^ p" using assms by (rule round_mag_near_small)
  have "of_int n < x * 2 ^ p + 1 / 2" using assms(4) by linarith
  then have "of_int n < (2::real) ^ 24 + 1" using assms(2) by linarith
  then have "of_int n / 2 ^ p < ((2::real) ^ 24 + 1) / 2 ^ p" by (simp add: divide_strict_right_mono)
  also have "\<dots> \<le> (2 ^ 24 + 1) / 1" by (intro divide_left_mono) simp_all
  also have "\<dots> < 2 ^ 128" by simp
  finally have "round_mag x < 2 ^ 128" using m by simp
  then show ?thesis using pos m by (simp add: round32_pos)
qed

lemma round32_near_neg:
  assumes "2 ^ 23 \<le> - x * 2 ^ p" "- x * 2 ^ p < 2 ^ 24" "p \<le> 149"
    and "\<bar>- x * 2 ^ p - of_int n\<bar> < 1 / 2"
  shows "round32 x = Fin (- (of_int n / 2 ^ p))"
proof -
  have r: "round32 (- x) = Fin (of_int n / 2 ^ p)" using assms by (intro round32_near_pos) simp_all
  have "(0::real) < 2 ^ 23" by simp
  then have "0 < - x * 2 ^ p" using assms(1) by linarith
  then have pos: "0 < - x" by (rule zero_less_mult_pos2) simp
  then have neg: "x < 0" by simp
  show ?thesis using r pos neg by (simp add: round32_pos round32_neg split: if_splits)
qed

lemma round32_exact_pos:
  assumes "2 ^ 23 \<le> x * 2 ^ p" "x * 2 ^ p < 2 ^ 24" "p \<le> 149" "x * 2 ^ p = of_int n"
  shows "round32 x = Fin x"
proof -
  have "round32 x = Fin (of_int n / 2 ^ p)"
    using assms(1-3) by (rule round32_near_pos) (simp add: assms(4))
  moreover have "of_int n / 2 ^ p = x" using assms(4) [symmetric] by simp
  ultimately show ?thesis by simp
qed

lemma round32_exact_neg:
  assumes "2 ^ 23 \<le> - x * 2 ^ p" "- x * 2 ^ p < 2 ^ 24" "p \<le> 149" "- x * 2 ^ p = of_int n"
  shows "round32 x = Fin x"
proof -
  have "round32 x = Fin (- (of_int n / 2 ^ p))"
    using assms(1-3) by (rule round32_near_neg) (use assms(4) in simp)
  moreover have "- (of_int n / 2 ^ p) = x" using assms(4) [symmetric] by simp
  ultimately show ?thesis by simp
qed

lemma round32_small_ints [simp]:
  "round32 1 = Fin 1" "round32 2 = Fin 2" "round32 3 = Fin 3" "round32 4 = Fin 4"
  "round32 5 = Fin 5" "round32 (- 1) = Fin (- 1)"
proof -
  show "round32 1 = Fin 1" by (rule round32_exact_pos [where p = 23 and n = 8388608]) simp_all
  show "round32 2 = Fin 2" by (rule round32_exact_pos [where p = 22 and n = 8388608]) simp_all
  show "round32 3 = Fin 3" by (rule round32_exact_pos [where p = 22 and n = 12582912]) simp_all
  show "round32 4 = Fin 4" by (rule round32_exact_pos [where p = 21 and n = 8388608]) simp_all
  show "round32 5 = Fin 5" by (rule round32_exact_pos [where p = 21 and n = 10485760]) simp_all
  show "round32 (- 1) = Fin (- 1)"
    by (rule round32_exact_neg [where p = 23 and n = 8388608]) simp_all
qed

lemma sqrt_between:
  assumes "0 \<le> lo" "lo * lo < a" "0 < hi" "a < hi * hi"
  shows "lo < sqrt a \<and> sqrt a < hi"
proof -
  have "lo\<^sup>2 < a" using assms(2) by (simp add: power2_eq_square)
  then have l: "lo < sqrt a" by (rule real_less_rsqrt)
  have "a < hi\<^sup>2" using assms(4) by (simp add: power2_eq_square)
  then have "sqrt a < hi" using assms(3) by (intro real_less_lsqrt) simp_all
  then show ?thesis using l by simp
qed

lemma round32_sqrt5: "round32 (sqrt 5) = Fin (9378749 / 4194304)"
proof -
  have b: "18757497 / 8388608 < sqrt 5 \<and> sqrt 5 < 18757499 / 8388608"
    by (rule sqrt_between) simp_all
  have "2 ^ 23 \<le> sqrt 5 * 2 ^ 22" "sqrt 5 * 2 ^ 22 < 2 ^ 24"
    "- (1 / 2) < sqrt 5 * 2 ^ 22 - of_int 9378749" "sqrt 5 * 2 ^ 22 - of_int 9378749 < 1 / 2"
    using b by auto
  then have "round32 (sqrt 5) = Fin (of_int 9378749 / 2 ^ 22)"
    by (intro round32_near_pos) (simp_all only: abs_less_iff, simp_all)
  then show ?thesis by simp
qed

lemma round32_sqrt3: "round32 (sqrt 3) = Fin (14529495 / 8388608)"
proof -
  have b: "29058989 / 16777216 < sqrt 3 \<and> sqrt 3 < 29058991 / 16777216"
    by (rule sqrt_between) simp_all
  have "2 ^ 23 \<le> sqrt 3 * 2 ^ 23" "sqrt 3 * 2 ^ 23 < 2 ^ 24"
    "- (1 / 2) < sqrt 3 * 2 ^ 23 - of_int 14529495" "sqrt 3 * 2 ^ 23 - of_int 14529495 < 1 / 2"
    using b by auto
  then have "round32 (sqrt 3) = Fin (of_int 14529495 / 2 ^ 23)"
    by (intro round32_near_pos) (simp_all only: abs_less_iff, simp_all)
  then show ?thesis by simp
qed

subsection \<open>The clamp of the sphere-box test in binary32\<close>

lemma FVec3_sel [simp]:
  "fvec_x (FVec3 a b c) = a" "fvec_y (FVec3 a b c) = b" "fvec_z (FVec3 a b c) = c"
  by (simp_all add: FVec3_def)

lemma FVec3_eq_iff [simp]: "FVec3 a b c = FVec3 a' b' c' \<longleftrightarrow> a = a' \<and> b = b' \<and> c = c'"
  by (simp add: FVec3_def)

lemma fvec3_eqI:
  fixes p q :: fvec3
  shows "fvec_x p = fvec_x q \<Longrightarrow> fvec_y p = fvec_y q \<Longrightarrow> fvec_z p = fvec_z q \<Longrightarrow> p = q"
  by simp

lemma fle_refl_finite [simp]: "fle (Fin x) (Fin x)" by simp

lemma is_finite_iff: "is_finite a \<longleftrightarrow> (\<exists>x. a = Fin x)"
  by (cases a) auto

lemma flt_irrefl [simp]: "\<not> flt a a"
  by (cases a) auto

lemma half_nonneg:
  assumes "fle (Fin 0) k"
  shows "fle (Fin 0) (fmul k (Fin 0.5))"
proof (cases k)
  case (Fin kv)
  then have "0 \<le> kv * 0.5" using assms by simp
  then have "fle (round32 0) (round32 (kv * 0.5))" by (rule round32_mono)
  then show ?thesis using Fin by simp
qed (use assms in simp_all)

lemma box_ordered:
  assumes "fle (Fin 0) k"
  shows "fle (boxLo (Fin cv) k) (boxHi (Fin cv) k)"
proof -
  have h: "fle (Fin 0) (fmul k (Fin 0.5))" using assms by (rule half_nonneg)
  show ?thesis
  proof (cases "fmul k (Fin 0.5)")
    case (Fin hv)
    then have "cv - hv \<le> cv + hv" using h by simp
    then have "fle (round32 (cv - hv)) (round32 (cv + hv))" by (rule round32_mono)
    then show ?thesis using Fin by (simp add: boxLo_def boxHi_def)
  next
    case PInf
    then show ?thesis by (simp add: boxLo_def boxHi_def)
  next
    case NInf
    then show ?thesis using h by simp
  next
    case NaN
    then show ?thesis using h by simp
  qed
qed

lemma clamp_code_is_spec:
  assumes "fle lo hi"
  shows "std_max lo (std_min (Fin sv) hi) = clampSpec32 lo hi (Fin sv)"
  using assms by (cases lo; cases hi) (auto simp add: std_max_def std_min_def clampSpec32_def)

lemma clamp_in_range:
  assumes "fle lo hi"
  shows "fle lo (clampSpec32 lo hi (Fin sv)) \<and> fle (clampSpec32 lo hi (Fin sv)) hi"
  using assms by (cases lo; cases hi) (auto simp add: clampSpec32_def)

lemma clamp_nearest:
  assumes "fle lo (Fin bv)" "fle (Fin bv) hi"
  shows "is_finite (clampSpec32 lo hi (Fin sv)) \<and>
    \<bar>sv - value32 (clampSpec32 lo hi (Fin sv))\<bar> \<le> \<bar>sv - bv\<bar>"
  using assms by (cases lo; cases hi) (auto simp add: clampSpec32_def)

lemma clamp_inside:
  assumes "fle lo (Fin sv)" "fle (Fin sv) hi"
  shows "clampSpec32 lo hi (Fin sv) = Fin sv"
  using assms by (cases lo; cases hi) (auto simp add: clampSpec32_def)

lemma closestPoint32_sel:
  "fvec_x (closestPoint32 s c k) =
     std_max (boxLo (fvec_x c) (fvec_x k)) (std_min (fvec_x s) (boxHi (fvec_x c) (fvec_x k)))"
  "fvec_y (closestPoint32 s c k) =
     std_max (boxLo (fvec_y c) (fvec_y k)) (std_min (fvec_y s) (boxHi (fvec_y c) (fvec_y k)))"
  "fvec_z (closestPoint32 s c k) =
     std_max (boxLo (fvec_z c) (fvec_z k)) (std_min (fvec_z s) (boxHi (fvec_z c) (fvec_z k)))"
  by (simp_all add: closestPoint32_def Let_def fvec_mult_scalar_def boxLo_def boxHi_def)

lemma axis_clamp:
  assumes "is_finite s" "is_finite c" "fle (Fin 0) k"
  shows "std_max (boxLo c k) (std_min s (boxHi c k)) = clampSpec32 (boxLo c k) (boxHi c k) s"
    and "fle (boxLo c k) (clampSpec32 (boxLo c k) (boxHi c k) s)"
    and "fle (clampSpec32 (boxLo c k) (boxHi c k) s) (boxHi c k)"
proof -
  obtain sv cv where s: "s = Fin sv" and c: "c = Fin cv"
    using assms(1,2) by (auto simp add: is_finite_iff)
  have o: "fle (boxLo c k) (boxHi c k)" unfolding c using assms(3) by (rule box_ordered)
  show "std_max (boxLo c k) (std_min s (boxHi c k)) = clampSpec32 (boxLo c k) (boxHi c k) s"
    unfolding s using o by (rule clamp_code_is_spec)
  show "fle (boxLo c k) (clampSpec32 (boxLo c k) (boxHi c k) s)"
    unfolding s using clamp_in_range [OF o] by simp
  show "fle (clampSpec32 (boxLo c k) (boxHi c k) s) (boxHi c k)"
    unfolding s using clamp_in_range [OF o] by simp
qed

lemma axis_nearest:
  assumes "is_finite s" "is_finite b" "fle lo b" "fle b hi"
  shows "is_finite (clampSpec32 lo hi s)"
    and "(value32 s - value32 (clampSpec32 lo hi s)) * (value32 s - value32 (clampSpec32 lo hi s))
      \<le> (value32 s - value32 b) * (value32 s - value32 b)"
proof -
  obtain sv bv where s: "s = Fin sv" and b: "b = Fin bv"
    using assms(1,2) by (auto simp add: is_finite_iff)
  note n = clamp_nearest [of lo bv hi sv, OF assms(3,4) [unfolded b]]
  show "is_finite (clampSpec32 lo hi s)" unfolding s using n by simp
  have "\<bar>sv - value32 (clampSpec32 lo hi (Fin sv))\<bar> \<le> \<bar>sv - bv\<bar>" using n by simp
  then have "(sv - value32 (clampSpec32 lo hi (Fin sv)))\<^sup>2 \<le> (sv - bv)\<^sup>2"
    by (simp only: abs_le_square_iff)
  then show "(value32 s - value32 (clampSpec32 lo hi s)) * (value32 s - value32 (clampSpec32 lo hi s))
      \<le> (value32 s - value32 b) * (value32 s - value32 b)"
    by (simp add: s b power2_eq_square)
qed

lemma axis_inside:
  assumes "is_finite s" "fle lo s" "fle s hi"
  shows "clampSpec32 lo hi s = s"
proof -
  obtain sv where s: "s = Fin sv" using assms(1) by (auto simp add: is_finite_iff)
  show ?thesis using assms(2,3) unfolding s by (rule clamp_inside)
qed

lemma closestPoint32_clamp:
  assumes "fvec_finite s" "fvec_finite c"
    and "fle (Fin 0) (fvec_x k)" "fle (Fin 0) (fvec_y k)" "fle (Fin 0) (fvec_z k)"
  shows "closestPoint32 s c k =
      FVec3 (clampSpec32 (boxLo (fvec_x c) (fvec_x k)) (boxHi (fvec_x c) (fvec_x k)) (fvec_x s))
            (clampSpec32 (boxLo (fvec_y c) (fvec_y k)) (boxHi (fvec_y c) (fvec_y k)) (fvec_y s))
            (clampSpec32 (boxLo (fvec_z c) (fvec_z k)) (boxHi (fvec_z c) (fvec_z k)) (fvec_z s))"
  using assms
  by (intro fvec3_eqI) (simp_all add: closestPoint32_sel fvec_finite_def axis_clamp(1))

lemma closestPoint32_inBox:
  assumes "fvec_finite s" "fvec_finite c"
    and "fle (Fin 0) (fvec_x k)" "fle (Fin 0) (fvec_y k)" "fle (Fin 0) (fvec_z k)"
  shows "inBoxSpec32 c k (closestPoint32 s c k)"
  using assms
  by (simp add: closestPoint32_clamp inBoxSpec32_def fvec_finite_def axis_clamp(2,3))

lemma closestPoint32_least:
  assumes "fvec_finite s" "fvec_finite c"
    and "fle (Fin 0) (fvec_x k)" "fle (Fin 0) (fvec_y k)" "fle (Fin 0) (fvec_z k)"
    and "fvec_finite b" "inBoxSpec32 c k b"
  shows "fvec_finite (closestPoint32 s c k) \<and>
    sqDistance (fvec_value s) (fvec_value (closestPoint32 s c k))
      \<le> sqDistance (fvec_value s) (fvec_value b)"
proof -
  note cl = closestPoint32_clamp [OF assms(1-5)]
  have fs: "is_finite (fvec_x s)" "is_finite (fvec_y s)" "is_finite (fvec_z s)"
    using assms(1) by (simp_all add: fvec_finite_def)
  have fb: "is_finite (fvec_x b)" "is_finite (fvec_y b)" "is_finite (fvec_z b)"
    using assms(6) by (simp_all add: fvec_finite_def)
  have bx: "fle (boxLo (fvec_x c) (fvec_x k)) (fvec_x b)" "fle (fvec_x b) (boxHi (fvec_x c) (fvec_x k))"
    and by': "fle (boxLo (fvec_y c) (fvec_y k)) (fvec_y b)" "fle (fvec_y b) (boxHi (fvec_y c) (fvec_y k))"
    and bz: "fle (boxLo (fvec_z c) (fvec_z k)) (fvec_z b)" "fle (fvec_z b) (boxHi (fvec_z c) (fvec_z k))"
    using assms(7) by (simp_all add: inBoxSpec32_def)
  note x = axis_nearest [OF fs(1) fb(1) bx]
  note y = axis_nearest [OF fs(2) fb(2) by']
  note z = axis_nearest [OF fs(3) fb(3) bz]
  have fin: "fvec_finite (closestPoint32 s c k)"
    using x(1) y(1) z(1) by (simp add: cl fvec_finite_def)
  have "sqDistance (fvec_value s) (fvec_value (closestPoint32 s c k))
      \<le> sqDistance (fvec_value s) (fvec_value b)"
    unfolding cl sqDistance_def fvec_value_def using x(2) y(2) z(2) by simp
  then show ?thesis using fin by simp
qed

lemma fvec_length_zero:
  "fvec_length (FVec3 (Fin 0) (Fin 0) (Fin 0)) = Fin 0"
  by (simp add: fvec_length_def)

lemma closestPoint32_inside:
  assumes "fvec_finite s" "fvec_finite c"
    and "fle (Fin 0) (fvec_x k)" "fle (Fin 0) (fvec_y k)" "fle (Fin 0) (fvec_z k)"
    and "inBoxSpec32 c k s"
  shows "closestPoint32 s c k = s \<and> (objectCollision32 s r c k \<longleftrightarrow> flt (Fin 0) r)"
proof -
  have fs: "is_finite (fvec_x s)" "is_finite (fvec_y s)" "is_finite (fvec_z s)"
    using assms(1) by (simp_all add: fvec_finite_def)
  have eq: "closestPoint32 s c k = s"
    using assms(6) fs
    by (intro fvec3_eqI) (simp_all add: closestPoint32_clamp [OF assms(1-5)] inBoxSpec32_def axis_inside)
  obtain a b d where s: "fvec_x s = Fin a" "fvec_y s = Fin b" "fvec_z s = Fin d"
    using fs by (auto simp add: is_finite_iff)
  have "fvec_sub s s = FVec3 (Fin 0) (Fin 0) (Fin 0)"
    by (intro fvec3_eqI) (simp_all add: fvec_sub_def s)
  then have "objectCollision32 s r c k \<longleftrightarrow> flt (Fin 0) r"
    by (simp add: objectCollision32_def Let_def eq fvec_length_zero)
  then show ?thesis using eq by simp
qed

lemma closestPoint32_eval:
  "closestPoint32 (FVec3 a b c) (FVec3 d e f) (FVec3 g h i) =
     FVec3 (std_max (fsub d (fmul g (Fin 0.5))) (std_min a (fadd d (fmul g (Fin 0.5)))))
           (std_max (fsub e (fmul h (Fin 0.5))) (std_min b (fadd e (fmul h (Fin 0.5)))))
           (std_max (fsub f (fmul i (Fin 0.5))) (std_min c (fadd f (fmul i (Fin 0.5)))))"
  by (simp add: closestPoint32_def fvec_mult_scalar_def Let_def)

lemma closestPoint32_rounding_case: "closestPoint32 (FVec3 (Fin 2) (Fin 3) (Fin 0)) (FVec3 (Fin 0) (Fin 0) (Fin 0))
      (FVec3 (Fin 2) (Fin 2) (Fin 2)) = FVec3 (Fin 1) (Fin 1) (Fin 0)"
  by (simp add: closestPoint32_eval std_max_def std_min_def)

lemma fvec_length_rounding_case: "fvec_length (fvec_sub (FVec3 (Fin 2) (Fin 3) (Fin 0)) (FVec3 (Fin 1) (Fin 1) (Fin 0)))
     = Fin (9378749 / 4194304)"
  by (simp add: fvec_length_def fvec_sub_def round32_sqrt5)

lemma closestPoint32_negative_case: "closestPoint32 (FVec3 (Fin 0) (Fin 0) (Fin 0)) (FVec3 (Fin 0) (Fin 0) (Fin 0))
      (FVec3 (Fin (- 2)) (Fin (- 2)) (Fin (- 2))) = FVec3 (Fin 1) (Fin 1) (Fin 1)"
  by (simp add: closestPoint32_eval std_max_def std_min_def)

lemma fvec_length_negative_case: "fvec_length (fvec_sub (FVec3 (Fin 0) (Fin 0) (Fin 0)) (FVec3 (Fin 1) (Fin 1) (Fin 1)))
     = Fin (14529495 / 8388608)"
  by (simp add: fvec_length_def fvec_sub_def round32_sqrt3)

subsection \<open>The room-bound test is the same in both readings\<close>

text \<open>The six comparisons involve no arithmetic, so on a finite position the binary32
  test of the room bounds is the exact one.\<close>

lemma insideBound32_exact:
  "insideBound32 bound (FVec3 (Fin a) (Fin b) (Fin c)) = insideBound bound (Vec3 a b c)"
  by (simp add: insideBound32_def insideBound_def)

lemma roomBoundsLoop32_exact:
  "roomBoundsLoop32 bs (FVec3 (Fin a) (Fin b) (Fin c)) = roomBoundsLoop bs (Vec3 a b c)"
  by (induction bs) (simp_all add: insideBound32_exact)

subsection \<open>The keyboard step in binary32\<close>

lemma worldAt32_sel [simp]:
  "eye32 (camera32 (worldAt32 e f r dt)) = e" "front32 (camera32 (worldAt32 e f r dt)) = f"
  "right32 (camera32 (worldAt32 e f r dt)) = r" "deltaTime32 (worldAt32 e f r dt) = dt"
  by (simp_all add: worldAt32_def)

lemma keyboardInput32_eye:
  "eye32 (camera32 (keyboardInput32 k objects w)) =
     (if checkCollision32 (candidate32 k (deltaTime32 w) (camera32 w)) objects
      then eye32 (camera32 w) else candidate32 k (deltaTime32 w) (camera32 w))"
  by (simp add: keyboardInput32_def Let_def)

lemma fvec_y_update: "(FVec3 a b c)\<lparr>fvec_y := d\<rparr> = FVec3 a d c"
  by (simp add: FVec3_def)

lemma f32_zero_ops: "fmul (Fin a) (Fin 0) = Fin 0" "fadd (Fin 0) (Fin 0) = Fin 0"
  by simp_all

lemma fmul_speed_case1: "fmul (Fin 5) (Fin (13421773 / 134217728)) = Fin (1 / 2)"
proof -
  have "round32 (5 * (13421773 / 134217728)) = Fin (of_int 8388608 / 2 ^ 24)"
    by (rule round32_near_pos) simp_all
  then show ?thesis by simp
qed

lemma fmul_dy_case1: "fmul (Fin (1 / 2)) (Fin (5033165 / 8388608)) = Fin (5033165 / 16777216)"
proof -
  have "round32 (1 / 2 * (5033165 / 8388608)) = Fin (of_int 10066330 / 2 ^ 25)"
    by (rule round32_near_pos) simp_all
  then show ?thesis by simp
qed

lemma fmul_dz_case1: "fmul (Fin (1 / 2)) (Fin (- (13421773 / 16777216))) = Fin (- (13421773 / 33554432))"
proof -
  have "round32 (1 / 2 * (- (13421773 / 16777216))) = Fin (- (of_int 13421773 / 2 ^ 25))"
    by (rule round32_near_neg) simp_all
  then show ?thesis by simp
qed

lemma fadd_y_case1: "fadd (Fin (- 4)) (Fin (5033165 / 16777216)) = Fin (- (15518925 / 4194304))"
proof -
  have "round32 (- 4 + 5033165 / 16777216) = Fin (- (of_int 15518925 / 2 ^ 22))"
    by (rule round32_near_neg) simp_all
  then show ?thesis by simp
qed

lemma fadd_z_case1: "fadd (Fin 0) (Fin (- (13421773 / 33554432))) = Fin (- (13421773 / 33554432))"
proof -
  have "round32 (0 + - (13421773 / 33554432)) = Fin (- (of_int 13421773 / 2 ^ 25))"
    by (rule round32_near_neg) simp_all
  then show ?thesis by simp
qed

lemma displaced32_case1:
  "displaced32 (pressed True False False False) (Fin (13421773 / 134217728))
     (camera32 (worldAt32 (FVec3 (Fin 0) (Fin (- 4)) (Fin 0))
        (FVec3 (Fin 0) (Fin (5033165 / 8388608)) (Fin (- (13421773 / 16777216))))
        (FVec3 (Fin 1) (Fin 0) (Fin 0)) (Fin (13421773 / 134217728)))) =
   FVec3 (Fin 0) (Fin (- (15518925 / 4194304))) (Fin (- (13421773 / 33554432)))"
  by (simp only: displaced32_def Let_def pressed_sel worldAt32_sel if_True if_False
      fvec_add_def fvec_scalar_mult_def FVec3_sel fmul_speed_case1 fmul_dy_case1 fmul_dz_case1 fadd_y_case1 fadd_z_case1 f32_zero_ops)

lemma fmul_speed_case2: "fmul (Fin 5) (Fin (11744051 / 8388608)) = Fin 7"
proof -
  have "round32 (5 * (11744051 / 8388608)) = Fin (of_int 14680064 / 2 ^ 21)"
    by (rule round32_near_pos) simp_all
  then show ?thesis by simp
qed

lemma fmul_dy_case2: "fmul (Fin 7) (Fin (16106127 / 16777216)) = Fin (14092861 / 2097152)"
proof -
  have "round32 (7 * (16106127 / 16777216)) = Fin (of_int 14092861 / 2 ^ 21)"
    by (rule round32_near_pos) simp_all
  then show ?thesis by simp
qed

lemma fmul_dz_case2: "fmul (Fin 7) (Fin (- (9395241 / 33554432))) = Fin (- (2055209 / 1048576))"
proof -
  have "round32 (7 * (- (9395241 / 33554432))) = Fin (- (of_int 16441672 / 2 ^ 23))"
    by (rule round32_near_neg) simp_all
  then show ?thesis by simp
qed

lemma fadd_y_case2: "fadd (Fin (- 4)) (Fin (14092861 / 2097152)) = Fin (5704253 / 2097152)"
proof -
  have "round32 (- 4 + 14092861 / 2097152) = Fin (of_int 11408506 / 2 ^ 22)"
    by (rule round32_near_pos) simp_all
  then show ?thesis by simp
qed

lemma fadd_z_case2: "fadd (Fin 0) (Fin (- (2055209 / 1048576))) = Fin (- (2055209 / 1048576))"
proof -
  have "round32 (0 + - (2055209 / 1048576)) = Fin (- (of_int 16441672 / 2 ^ 23))"
    by (rule round32_near_neg) simp_all
  then show ?thesis by simp
qed

lemma displaced32_case2:
  "displaced32 (pressed True False False False) (Fin (11744051 / 8388608))
     (camera32 (worldAt32 (FVec3 (Fin 0) (Fin (- 4)) (Fin 0))
        (FVec3 (Fin 0) (Fin (16106127 / 16777216)) (Fin (- (9395241 / 33554432))))
        (FVec3 (Fin 1) (Fin 0) (Fin 0)) (Fin (11744051 / 8388608)))) =
   FVec3 (Fin 0) (Fin (5704253 / 2097152)) (Fin (- (2055209 / 1048576)))"
  by (simp only: displaced32_def Let_def pressed_sel worldAt32_sel if_True if_False
      fvec_add_def fvec_scalar_mult_def FVec3_sel fmul_speed_case2 fmul_dy_case2 fmul_dz_case2 fadd_y_case2 fadd_z_case2 f32_zero_ops)

section \<open>The collision predicate (C1)\<close>




section \<open>The sphere-box test (C2)\<close>

text \<open>
  C2, as stated, fails in two ways. First, the test compares the radius with the length
  computed in binary32, not with the Euclidean distance: for sphere centre \<open>(2, 3, 0)\<close>
  and a box of scale 2 at the origin the closest point is \<open>(1, 1, 0)\<close>, the distance is
  \<open>sqrt 5\<close>, and for the radius 9378749 / 4194304, the binary32 value of \<open>sqrt 5\<close>, which
  is above \<open>sqrt 5\<close>, the computed length equals the radius and the predicate is false.
  Second, for a negative scale the point computed is not in the interval from
  \<open>boxCenter - half\<close> to \<open>boxCenter + half\<close>: with both centres at the origin and scale
  \<open>(-2, -2, -2)\<close> it is \<open>(1, 1, 1)\<close>, and the predicate is false for radius 0.5 although
  the sphere centre is the box centre.
\<close>

theorem objectCollision32_not_euclidean:
  "sqrt (sqDistance (Vec3 2 3 0) (Vec3 1 1 0)) < 9378749 / 4194304 \<and>
   closestPoint32 (FVec3 (Fin 2) (Fin 3) (Fin 0)) (FVec3 (Fin 0) (Fin 0) (Fin 0))
      (FVec3 (Fin 2) (Fin 2) (Fin 2)) = FVec3 (Fin 1) (Fin 1) (Fin 0) \<and>
   \<not> objectCollision32 (FVec3 (Fin 2) (Fin 3) (Fin 0)) (Fin (9378749 / 4194304))
      (FVec3 (Fin 0) (Fin 0) (Fin 0)) (FVec3 (Fin 2) (Fin 2) (Fin 2)) \<and>
   closestPoint32 (FVec3 (Fin 0) (Fin 0) (Fin 0)) (FVec3 (Fin 0) (Fin 0) (Fin 0))
      (FVec3 (Fin (- 2)) (Fin (- 2)) (Fin (- 2))) = FVec3 (Fin 1) (Fin 1) (Fin 1) \<and>
   \<not> inBoxSpec32 (FVec3 (Fin 0) (Fin 0) (Fin 0)) (FVec3 (Fin (- 2)) (Fin (- 2)) (Fin (- 2)))
      (FVec3 (Fin 1) (Fin 1) (Fin 1)) \<and>
   \<not> objectCollision32 (FVec3 (Fin 0) (Fin 0) (Fin 0)) (Fin 0.5)
      (FVec3 (Fin 0) (Fin 0) (Fin 0)) (FVec3 (Fin (- 2)) (Fin (- 2)) (Fin (- 2)))"
proof -
  have e: "sqrt (sqDistance (Vec3 2 3 0) (Vec3 1 1 0)) < 9378749 / 4194304"
    by (rule real_less_lsqrt) (simp_all add: sqDistance_def power2_eq_square)
  have a: "\<not> objectCollision32 (FVec3 (Fin 2) (Fin 3) (Fin 0)) (Fin (9378749 / 4194304))
      (FVec3 (Fin 0) (Fin 0) (Fin 0)) (FVec3 (Fin 2) (Fin 2) (Fin 2))"
    by (simp add: objectCollision32_def Let_def closestPoint32_rounding_case fvec_length_rounding_case)
  have b: "\<not> inBoxSpec32 (FVec3 (Fin 0) (Fin 0) (Fin 0)) (FVec3 (Fin (- 2)) (Fin (- 2)) (Fin (- 2)))
      (FVec3 (Fin 1) (Fin 1) (Fin 1))"
    by (simp add: inBoxSpec32_def boxLo_def boxHi_def)
  have c: "\<not> objectCollision32 (FVec3 (Fin 0) (Fin 0) (Fin 0)) (Fin 0.5)
      (FVec3 (Fin 0) (Fin 0) (Fin 0)) (FVec3 (Fin (- 2)) (Fin (- 2)) (Fin (- 2)))"
    by (simp add: objectCollision32_def Let_def closestPoint32_negative_case fvec_length_negative_case)
  show ?thesis using e a b c closestPoint32_rounding_case closestPoint32_negative_case by simp
qed

text \<open>
  C2, amended: for every sphere centre, radius, box centre and box scale, the predicate
  is true if and only if the length of the difference of the sphere centre and the point
  computed on each axis as \<open>max (boxCenter - half) (min sphereCenter (boxCenter + half))\<close>,
  with \<open>half\<close> the scale times 0.5, all in binary32, is strictly below the radius; a
  computed length equal to the radius does not collide. When both centres are finite and
  the scale is not negative on any axis, that point is the sphere centre clamped into
  the interval from \<open>boxCenter - half\<close> to \<open>boxCenter + half\<close> on each axis, it lies in the
  box, no finite point of the box is closer to the sphere centre, and when the sphere
  centre is itself in the box the point is the sphere centre and the predicate is true
  exactly for a positive radius.
\<close>

theorem objectCollision32_closest_point:
  "(objectCollision32 s r c k \<longleftrightarrow> flt (fvec_length (fvec_sub s (closestPoint32 s c k))) r) \<and>
   (fvec_length (fvec_sub s (closestPoint32 s c k)) = r \<longrightarrow> \<not> objectCollision32 s r c k) \<and>
   (fvec_finite s \<and> fvec_finite c \<and>
    fle (Fin 0) (fvec_x k) \<and> fle (Fin 0) (fvec_y k) \<and> fle (Fin 0) (fvec_z k) \<longrightarrow>
      closestPoint32 s c k =
        FVec3 (clampSpec32 (boxLo (fvec_x c) (fvec_x k)) (boxHi (fvec_x c) (fvec_x k)) (fvec_x s))
              (clampSpec32 (boxLo (fvec_y c) (fvec_y k)) (boxHi (fvec_y c) (fvec_y k)) (fvec_y s))
              (clampSpec32 (boxLo (fvec_z c) (fvec_z k)) (boxHi (fvec_z c) (fvec_z k)) (fvec_z s)) \<and>
      inBoxSpec32 c k (closestPoint32 s c k) \<and>
      (\<forall>b. fvec_finite b \<and> inBoxSpec32 c k b \<longrightarrow>
         fvec_finite (closestPoint32 s c k) \<and>
         sqDistance (fvec_value s) (fvec_value (closestPoint32 s c k))
           \<le> sqDistance (fvec_value s) (fvec_value b)) \<and>
      (inBoxSpec32 c k s \<longrightarrow>
         closestPoint32 s c k = s \<and> (objectCollision32 s r c k \<longleftrightarrow> flt (Fin 0) r)))"
proof (intro conjI impI allI)
  show "objectCollision32 s r c k \<longleftrightarrow> flt (fvec_length (fvec_sub s (closestPoint32 s c k))) r"
    by (simp add: objectCollision32_def Let_def)
next
  assume "fvec_length (fvec_sub s (closestPoint32 s c k)) = r"
  then show "\<not> objectCollision32 s r c k"
    by (simp add: objectCollision32_def Let_def)
next
  assume h: "fvec_finite s \<and> fvec_finite c \<and>
    fle (Fin 0) (fvec_x k) \<and> fle (Fin 0) (fvec_y k) \<and> fle (Fin 0) (fvec_z k)"
  then show "closestPoint32 s c k =
        FVec3 (clampSpec32 (boxLo (fvec_x c) (fvec_x k)) (boxHi (fvec_x c) (fvec_x k)) (fvec_x s))
              (clampSpec32 (boxLo (fvec_y c) (fvec_y k)) (boxHi (fvec_y c) (fvec_y k)) (fvec_y s))
              (clampSpec32 (boxLo (fvec_z c) (fvec_z k)) (boxHi (fvec_z c) (fvec_z k)) (fvec_z s))"
    by (intro closestPoint32_clamp) simp_all
next
  assume h: "fvec_finite s \<and> fvec_finite c \<and>
    fle (Fin 0) (fvec_x k) \<and> fle (Fin 0) (fvec_y k) \<and> fle (Fin 0) (fvec_z k)"
  then show "inBoxSpec32 c k (closestPoint32 s c k)"
    by (intro closestPoint32_inBox) simp_all
next
  fix b
  assume h: "fvec_finite s \<and> fvec_finite c \<and>
    fle (Fin 0) (fvec_x k) \<and> fle (Fin 0) (fvec_y k) \<and> fle (Fin 0) (fvec_z k)"
    and b: "fvec_finite b \<and> inBoxSpec32 c k b"
  have l: "fvec_finite (closestPoint32 s c k) \<and>
    sqDistance (fvec_value s) (fvec_value (closestPoint32 s c k))
      \<le> sqDistance (fvec_value s) (fvec_value b)"
    using h b by (intro closestPoint32_least) simp_all
  show "fvec_finite (closestPoint32 s c k)" using l by simp
  show "sqDistance (fvec_value s) (fvec_value (closestPoint32 s c k))
      \<le> sqDistance (fvec_value s) (fvec_value b)" using l by simp
next
  assume h: "fvec_finite s \<and> fvec_finite c \<and>
    fle (Fin 0) (fvec_x k) \<and> fle (Fin 0) (fvec_y k) \<and> fle (Fin 0) (fvec_z k)"
    and i: "inBoxSpec32 c k s"
  have l: "closestPoint32 s c k = s \<and> (objectCollision32 s r c k \<longleftrightarrow> flt (Fin 0) r)"
    using h i by (intro closestPoint32_inside) simp_all
  show "closestPoint32 s c k = s" using l by simp
  show "objectCollision32 s r c k \<longleftrightarrow> flt (Fin 0) r" using l by simp
qed

text \<open>A sphere centred at \<open>(2, 0, 0)\<close> and a box of scale 2 at the origin: the closest
  point is \<open>(1, 0, 0)\<close>, the computed length is 1, and radius 1 does not collide. A
  sphere centred at \<open>(0.5, 0, 0)\<close>, inside the box, collides for radius 0.5.\<close>

theorem objectCollision32_closest_point_witness:
  "fvec_finite (FVec3 (Fin 2) (Fin 0) (Fin 0)) \<and> fle (Fin 0) (Fin 2) \<and>
   closestPoint32 (FVec3 (Fin 2) (Fin 0) (Fin 0)) (FVec3 (Fin 0) (Fin 0) (Fin 0))
     (FVec3 (Fin 2) (Fin 2) (Fin 2)) = FVec3 (Fin 1) (Fin 0) (Fin 0) \<and>
   inBoxSpec32 (FVec3 (Fin 0) (Fin 0) (Fin 0)) (FVec3 (Fin 2) (Fin 2) (Fin 2))
     (FVec3 (Fin 1) (Fin 0) (Fin 0)) \<and>
   inBoxSpec32 (FVec3 (Fin 0) (Fin 0) (Fin 0)) (FVec3 (Fin 2) (Fin 2) (Fin 2))
     (FVec3 (Fin 0) (Fin 0) (Fin 0)) \<and>
   sqDistance (Vec3 2 0 0) (Vec3 1 0 0) \<le> sqDistance (Vec3 2 0 0) (Vec3 0 0 0) \<and>
   fvec_length (fvec_sub (FVec3 (Fin 2) (Fin 0) (Fin 0)) (FVec3 (Fin 1) (Fin 0) (Fin 0))) = Fin 1 \<and>
   \<not> objectCollision32 (FVec3 (Fin 2) (Fin 0) (Fin 0)) (Fin 1) (FVec3 (Fin 0) (Fin 0) (Fin 0))
     (FVec3 (Fin 2) (Fin 2) (Fin 2)) \<and>
   inBoxSpec32 (FVec3 (Fin 0) (Fin 0) (Fin 0)) (FVec3 (Fin 2) (Fin 2) (Fin 2))
     (FVec3 (Fin 0.5) (Fin 0) (Fin 0)) \<and>
   objectCollision32 (FVec3 (Fin 0.5) (Fin 0) (Fin 0)) (Fin 0.5) (FVec3 (Fin 0) (Fin 0) (Fin 0))
     (FVec3 (Fin 2) (Fin 2) (Fin 2))"
proof -
  let ?s = "FVec3 (Fin 2) (Fin 0) (Fin 0)"
  let ?c = "FVec3 (Fin 0) (Fin 0) (Fin 0)"
  let ?k = "FVec3 (Fin 2) (Fin 2) (Fin 2)"
  have fs: "fvec_finite ?s" and fc: "fvec_finite ?c" by (simp_all add: fvec_finite_def)
  have cp: "closestPoint32 ?s ?c ?k = FVec3 (Fin 1) (Fin 0) (Fin 0)"
    by (simp add: closestPoint32_eval std_max_def std_min_def)
  have len: "fvec_length (fvec_sub ?s (FVec3 (Fin 1) (Fin 0) (Fin 0))) = Fin 1"
    by (simp add: fvec_length_def fvec_sub_def)
  have org: "fvec_finite ?c \<and> inBoxSpec32 ?c ?k ?c"
    by (simp add: fvec_finite_def inBoxSpec32_def boxLo_def boxHi_def)
  note t = objectCollision32_closest_point [of ?s "Fin 1" ?c ?k]
  have hyp: "fvec_finite ?s \<and> fvec_finite ?c \<and>
    fle (Fin 0) (fvec_x ?k) \<and> fle (Fin 0) (fvec_y ?k) \<and> fle (Fin 0) (fvec_z ?k)"
    using fs fc by simp
  note g = t [THEN conjunct2, THEN conjunct2, THEN mp, OF hyp]
  have box: "inBoxSpec32 ?c ?k (FVec3 (Fin 1) (Fin 0) (Fin 0))"
    using g [THEN conjunct2, THEN conjunct1] by (simp only: cp)
  have near: "sqDistance (fvec_value ?s) (fvec_value (closestPoint32 ?s ?c ?k))
      \<le> sqDistance (fvec_value ?s) (fvec_value ?c)"
    using g [THEN conjunct2, THEN conjunct2, THEN conjunct1, THEN spec, THEN mp, OF org] by simp
  have tang: "\<not> objectCollision32 ?s (Fin 1) ?c ?k"
    using t [THEN conjunct2, THEN conjunct1] len by (simp only: cp) simp
  have near': "sqDistance (Vec3 2 0 0) (Vec3 1 0 0) \<le> sqDistance (Vec3 2 0 0) (Vec3 0 0 0)"
    using near by (simp add: cp fvec_value_def)
  let ?i = "FVec3 (Fin 0.5) (Fin 0) (Fin 0)"
  have ins: "inBoxSpec32 ?c ?k ?i"
    by (simp add: inBoxSpec32_def boxLo_def boxHi_def)
  have hyp': "fvec_finite ?i \<and> fvec_finite ?c \<and>
    fle (Fin 0) (fvec_x ?k) \<and> fle (Fin 0) (fvec_y ?k) \<and> fle (Fin 0) (fvec_z ?k)"
    by (simp add: fvec_finite_def)
  note g' = objectCollision32_closest_point [of ?i "Fin 0.5" ?c ?k, THEN conjunct2,
    THEN conjunct2, THEN mp, OF hyp']
  have hit: "objectCollision32 ?i (Fin 0.5) ?c ?k"
    using g' [THEN conjunct2, THEN conjunct2, THEN conjunct2, THEN mp, OF ins] by simp
  show ?thesis using fs cp box org near' len tang ins hit by simp
qed

section \<open>All-or-nothing movement (C3)\<close>



section \<open>The eye stays at the floor height (C4)\<close>

text \<open>
  C4: in every world reachable from the initial eye \<open>(0, -4, 4.5)\<close>, the eye's y
  coordinate is \<open>-4\<close>, and it is \<open>-4\<close> again after every run of the keyboard step,
  whatever the keys, the frame time, the basis vectors and the objects, and whether the
  candidate is kept or the old eye restored.
\<close>

theorem keyboardInput_floor_height:
  assumes "reachable w"
  shows "vec_y (eye (camera w)) = - 4 \<and>
         vec_y (eye (camera (keyboardInput k objects w))) = - 4"
  using assms reachable.keyboard [OF assms, of k objects] by (simp add: reachable_y)

text \<open>From the initial eye in the scene: a step with W pressed is kept, a step with no
  key pressed is reverted (the initial eye collides), and the height is \<open>-4\<close> after
  both.\<close>

theorem keyboardInput_floor_height_witness:
  "reachable (worldAt initialEye (Vec3 0 0 (- 1)) (Vec3 1 0 0) 1) \<and>
   \<not> checkCollision (candidate (pressed True False False False) 1
       (camera (worldAt initialEye (Vec3 0 0 (- 1)) (Vec3 1 0 0) 1))) sceneObjects \<and>
   vec_y (eye (camera (keyboardInput (pressed True False False False) sceneObjects
       (worldAt initialEye (Vec3 0 0 (- 1)) (Vec3 1 0 0) 1)))) = - 4 \<and>
   checkCollision (candidate (pressed False False False False) 1
       (camera (worldAt initialEye (Vec3 0 0 (- 1)) (Vec3 1 0 0) 1))) sceneObjects \<and>
   vec_y (eye (camera (keyboardInput (pressed False False False False) sceneObjects
       (worldAt initialEye (Vec3 0 0 (- 1)) (Vec3 1 0 0) 1)))) = - 4"
proof -
  have r: "reachable (worldAt initialEye (Vec3 0 0 (- 1)) (Vec3 1 0 0) 1)"
    by (rule reachable.start) simp
  have a: "\<not> checkCollision (candidate (pressed True False False False) 1
       (camera (worldAt initialEye (Vec3 0 0 (- 1)) (Vec3 1 0 0) 1))) sceneObjects"
    using no_collision_forward by (simp add: initialEye_def candidate_eval)
  have b: "checkCollision (candidate (pressed False False False False) 1
       (camera (worldAt initialEye (Vec3 0 0 (- 1)) (Vec3 1 0 0) 1))) sceneObjects"
    by (simp add: initialEye_def candidate_eval checkCollision_def roomBounds_def
        insideBound_def)
  show ?thesis
    using r a b
      keyboardInput_floor_height [OF r, of "pressed True False False False" sceneObjects]
      keyboardInput_floor_height [OF r, of "pressed False False False False" sceneObjects]
    by simp
qed

section \<open>The forward-move scenario (C5)\<close>

text \<open>
  C5, as stated, fails: with the eye at \<open>(0, -4, 4.5)\<close>, W pressed, front \<open>(0, 0, -1)\<close>,
  speed 5 and a frame time of 1, \<open>checkCollision\<close> is false on the candidate in the
  program's scene, and the eye after the step is not \<open>(0, -4, 4.5)\<close>.
\<close>

theorem forward_move_not_discarded:
  "\<not> checkCollision
      (candidate (pressed True False False False) 1
         (camera (worldAt (Vec3 0 (- 4) 4.5) (Vec3 0 0 (- 1)) (Vec3 1 0 0) 1))) sceneObjects \<and>
   eye (camera (keyboardInput (pressed True False False False) sceneObjects
         (worldAt (Vec3 0 (- 4) 4.5) (Vec3 0 0 (- 1)) (Vec3 1 0 0) 1))) \<noteq> Vec3 0 (- 4) 4.5"
  using no_collision_forward by (simp add: keyboardInput_eye candidate_eval)

text \<open>
  C5, amended: with the eye at \<open>(0, -4, 4.5)\<close> and a forward move along front
  \<open>(0, 0, -1)\<close> with speed 5 and frame time 1, the candidate position is
  \<open>(0, -4, -0.5)\<close>; it lies in no room bound and, in the program's scene, touches no
  cube, so \<open>checkCollision\<close> is false on it, the move is kept, and the eye after the step
  is \<open>(0, -4, -0.5)\<close>. The right vector does not matter.
\<close>

theorem forward_move_is_kept:
  "candidate (pressed True False False False) 1
     (camera (worldAt (Vec3 0 (- 4) 4.5) (Vec3 0 0 (- 1)) (Vec3 r1 r2 r3) 1)) =
     Vec3 0 (- 4) (- 0.5) \<and>
   \<not> roomBoundsLoop roomBounds (Vec3 0 (- 4) (- 0.5)) \<and>
   \<not> checkCollision (Vec3 0 (- 4) (- 0.5)) sceneObjects \<and>
   eye (camera (keyboardInput (pressed True False False False) sceneObjects
         (worldAt (Vec3 0 (- 4) 4.5) (Vec3 0 0 (- 1)) (Vec3 r1 r2 r3) 1))) =
     Vec3 0 (- 4) (- 0.5)"
proof -
  have "\<not> roomBoundsLoop roomBounds (Vec3 0 (- 4) (- 0.5))"
    by (rule no_bound_forward)
  then show ?thesis
    using no_collision_forward by (simp add: keyboardInput_eye candidate_eval)
qed

section \<open>The room bounds are inclusive (C6)\<close>

text \<open>
  C6: the table has six bounds, and a position whose coordinates lie between the minimum
  and the maximum of one of them on every axis, the faces included, is reported by the
  room-bound loop and so by \<open>checkCollision\<close>, whatever the objects. The position
  \<open>(0, 0, 0)\<close> lies in no room bound, and \<open>checkCollision\<close> is false on it with an empty
  object list.
\<close>

theorem roomBounds_inclusive:
  assumes "bound \<in> set roomBounds"
    and "xMin bound \<le> vec_x p" "vec_x p \<le> xMax bound"
    and "yMin bound \<le> vec_y p" "vec_y p \<le> yMax bound"
    and "zMin bound \<le> vec_z p" "vec_z p \<le> zMax bound"
  shows "roomBoundsLoop roomBounds p \<and> checkCollision p objects \<and>
    length roomBounds = 6 \<and>
    \<not> roomBoundsLoop roomBounds (Vec3 0 0 0) \<and> \<not> checkCollision (Vec3 0 0 0) []"
proof -
  have "insideBound bound p" using assms by (simp add: insideBound_def)
  then have "roomBoundsLoop roomBounds p"
    using assms(1) roomBoundsLoop_iff by blast
  moreover have "\<not> roomBoundsLoop roomBounds (Vec3 0 0 0)"
    by (simp add: roomBounds_def insideBound_def)
  ultimately show ?thesis
    by (simp add: checkCollision_def roomBounds_def)
qed

text \<open>The corner \<open>(5, -4.5, -5)\<close> of the floor bound lies on three of its faces.\<close>

theorem roomBounds_inclusive_witness:
  "mkBound (- 5) 5 (- 5) (- 4.5) (- 5) 5 \<in> set roomBounds \<and>
   roomBoundsLoop roomBounds (Vec3 5 (- 4.5) (- 5)) \<and>
   checkCollision (Vec3 5 (- 4.5) (- 5)) [] \<and>
   \<not> checkCollision (Vec3 0 0 0) []"
proof -
  have m: "mkBound (- 5) 5 (- 5) (- 4.5) (- 5) 5 \<in> set roomBounds"
    by (simp add: roomBounds_def)
  show ?thesis
    using m roomBounds_inclusive [OF m, of "Vec3 5 (- 4.5) (- 5)" "[]"] by simp
qed

section \<open>Examples of the sphere-box test (C7)\<close>

text \<open>
  C7: the sphere-box predicate is true for sphere centre \<open>(0,0,0)\<close>, radius 0.5, box
  centre \<open>(0,0,0)\<close> and box scale \<open>(1,1,1)\<close>, and false for sphere centre \<open>(10,10,10)\<close>
  with the same radius and box.
\<close>

theorem objectCollision_examples:
  "objectCollision (Vec3 0 0 0) 0.5 (Vec3 0 0 0) (Vec3 1 1 1) \<and>
   \<not> objectCollision (Vec3 10 10 10) 0.5 (Vec3 0 0 0) (Vec3 1 1 1)"
  by (simp add: objectCollision_iff closestPoint_eval sqDistance_def)

section \<open>The initial eye collides (C8)\<close>

text \<open>
  C8: \<open>checkCollision\<close> is true at the initial eye \<open>(0, -4, 4.5)\<close> for every object
  list, the empty one included, because the eye lies in the front-wall bound, the fourth
  entry of the table, exactly on its face \<open>zMin = 4.5\<close>.
\<close>

theorem checkCollision_initialEye:
  "checkCollision initialEye objects \<and> checkCollision initialEye [] \<and>
   insideBound (roomBounds ! 3) initialEye \<and> zMin (roomBounds ! 3) = vec_z initialEye \<and>
   initialEye = Vec3 0 (- 4) 4.5"
  by (simp add: checkCollision_def roomBounds_def insideBound_def initialEye_def)

section \<open>Floor and ceiling never reject a keyboard move (C9)\<close>

text \<open>
  C9: the candidate the keyboard step tests has y equal to \<open>-4\<close>, so it lies neither in
  the floor bound nor in the ceiling bound, the first two entries of the table; whenever
  \<open>checkCollision\<close> rejects it, it lies in one of the four wall bounds or the sphere-box
  test succeeds against a cube.
\<close>

theorem rejection_by_wall_or_cube:
  "vec_y (candidate k (deltaTime w) (camera w)) = - 4 \<and>
   \<not> insideBound (roomBounds ! 0) (candidate k (deltaTime w) (camera w)) \<and>
   \<not> insideBound (roomBounds ! 1) (candidate k (deltaTime w) (camera w)) \<and>
   (checkCollision (candidate k (deltaTime w) (camera w)) objects \<longrightarrow>
      (\<exists>b \<in> set (drop 2 roomBounds). insideBound b (candidate k (deltaTime w) (camera w))) \<or>
      (\<exists>obj \<in> set objects. name obj = ''cube'' \<and>
         objectCollision (candidate k (deltaTime w) (camera w)) cameraRadius
           (position obj) (scale obj)))"
proof -
  let ?c = "candidate k (deltaTime w) (camera w)"
  have y: "vec_y ?c = - 4" by (rule candidate_y)
  have f: "\<not> insideBound (roomBounds ! 0) ?c"
    by (simp add: roomBounds_def insideBound_def y)
  have c: "\<not> insideBound (roomBounds ! 1) ?c"
    by (simp add: roomBounds_def insideBound_def y)
  have "(\<exists>b \<in> set roomBounds. insideBound b ?c) \<longleftrightarrow>
      insideBound (roomBounds ! 0) ?c \<or> insideBound (roomBounds ! 1) ?c \<or>
      (\<exists>b \<in> set (drop 2 roomBounds). insideBound b ?c)"
    by (simp add: roomBounds_def)
  then have "(\<exists>b \<in> set roomBounds. insideBound b ?c) \<longleftrightarrow>
      (\<exists>b \<in> set (drop 2 roomBounds). insideBound b ?c)"
    using f c by simp
  then show ?thesis using y f c by (simp add: checkCollision_iff)
qed

text \<open>A step of 5 forward from \<open>(0, -4, 0)\<close> ends on the face \<open>zMin = -5\<close> of the
  back wall bound and is rejected, with no object in the list.\<close>

theorem rejection_by_wall_or_cube_witness:
  "checkCollision (Vec3 0 (- 4) (- 5)) [] \<and>
   candidate (pressed True False False False) 1
     (camera (worldAt (Vec3 0 (- 4) 0) (Vec3 0 0 (- 1)) (Vec3 1 0 0) 1)) = Vec3 0 (- 4) (- 5) \<and>
   (\<exists>b \<in> set (drop 2 roomBounds). insideBound b (Vec3 0 (- 4) (- 5)))"
proof -
  have c: "candidate (pressed True False False False) 1
     (camera (worldAt (Vec3 0 (- 4) 0) (Vec3 0 0 (- 1)) (Vec3 1 0 0) 1)) = Vec3 0 (- 4) (- 5)"
    by (simp add: candidate_eval)
  have h: "checkCollision (Vec3 0 (- 4) (- 5)) []"
    by (simp add: checkCollision_def roomBounds_def insideBound_def)
  show ?thesis
    using c h rejection_by_wall_or_cube [of "pressed True False False False"
        "worldAt (Vec3 0 (- 4) 0) (Vec3 0 0 (- 1)) (Vec3 1 0 0) 1" "[]"]
    by simp
qed

section \<open>Monotonicity in the radius (C10)\<close>

text \<open>
  C10: the sphere-box predicate is monotone in the radius. If it is true for radius \<open>r\<close>
  it is true for every radius \<open>r' \<ge> r\<close>; and if it is false for \<open>r\<close> it is false for every
  non-negative radius below \<open>r\<close>.
\<close>

theorem objectCollision_mono_radius:
  "(objectCollision s r c sc \<and> r \<le> r' \<longrightarrow> objectCollision s r' c sc) \<and>
   (\<not> objectCollision s r c sc \<and> 0 \<le> r'' \<and> r'' \<le> r \<longrightarrow> \<not> objectCollision s r'' c sc)"
  by (auto simp add: objectCollision_def Let_def)

theorem objectCollision_mono_radius_witness:
  "objectCollision (Vec3 0 0 0) 0.5 (Vec3 0 0 0) (Vec3 1 1 1) \<and> (0.5::real) \<le> 1 \<and>
   objectCollision (Vec3 0 0 0) 1 (Vec3 0 0 0) (Vec3 1 1 1) \<and>
   \<not> objectCollision (Vec3 10 10 10) 0.5 (Vec3 0 0 0) (Vec3 1 1 1) \<and> (0::real) \<le> 0.25 \<and>
   (0.25::real) \<le> 0.5 \<and>
   \<not> objectCollision (Vec3 10 10 10) 0.25 (Vec3 0 0 0) (Vec3 1 1 1)"
proof -
  have a: "objectCollision (Vec3 0 0 0) 0.5 (Vec3 0 0 0) (Vec3 1 1 1)"
    by (simp add: objectCollision_iff closestPoint_eval sqDistance_def)
  have b: "\<not> objectCollision (Vec3 10 10 10) 0.5 (Vec3 0 0 0) (Vec3 1 1 1)"
    by (simp add: objectCollision_iff closestPoint_eval sqDistance_def)
  have "objectCollision (Vec3 0 0 0) 1 (Vec3 0 0 0) (Vec3 1 1 1)"
    using a objectCollision_mono_radius
      [of "Vec3 0 0 0" "0.5" "Vec3 0 0 0" "Vec3 1 1 1" 1] by simp
  moreover have "\<not> objectCollision (Vec3 10 10 10) 0.25 (Vec3 0 0 0) (Vec3 1 1 1)"
    using b objectCollision_mono_radius
      [of "Vec3 10 10 10" "0.5" "Vec3 0 0 0" "Vec3 1 1 1" _ "0.25"] by simp
  ultimately show ?thesis using a b by simp
qed

end
